theory Spec2Isabelle
  imports Complex_Main "HOL-Library.Char_ord" "HOL-Library.List_Lexorder"
begin

section \<open>The FRA viewer of \<^verbatim>\<open>fradss/static/vanachitra.js\<close>\<close>

text \<open>
  The class \<^verbatim>\<open>VanachitraFRAViewer\<close> groups GeoJSON features into layers, styles them,
  filters them and aggregates statistics. Its methods are embedded below as functions on
  the data they read and write.

  Conventions of the embedding:
  \<^item> the data have been loaded, so the early returns of the methods for missing data are
    not taken, and every feature has a \<^verbatim>\<open>properties\<close> object;
  \<^item> a property that may be missing is an \<open>option\<close>, \<open>None\<close> standing for
    \<^verbatim>\<open>undefined\<close>; text properties hold strings and the two area properties hold
    numbers, as in the datasets served to the viewer;
  \<^item> a number in the data is the value of a finite double, a rational, with the two
    zeros identified; what the viewer computes with numbers, the running total of the
    areas and its rendering, is not computed in the embedding but left to the operations
    of an \<open>arithmetic\<close>, about which nothing is assumed;
  \<^item> a string is a list of 8-bit characters, compared by character code as JavaScript
    compares code units.
\<close>

subsection \<open>Features and their properties\<close>

record props =
  fra_type :: "string option"
  feature_type :: "string option"
  claim_type :: "string option"
  status :: "string option"
  state :: "string option"
  district :: "string option"
  village :: "string option"
  area_claimed :: "rat option"
  area_hectares :: "rat option"

record feature =
  geometry :: "(rat \<times> rat) list"
  properties :: props

subsection \<open>JavaScript truthiness and \<^verbatim>\<open>||\<close>\<close>

text \<open>\<^verbatim>\<open>undefined\<close>, the empty string and the number zero are falsy.\<close>

fun truthy_str :: "string option \<Rightarrow> bool" where
  "truthy_str None = False"
| "truthy_str (Some s) = (s \<noteq> [])"

fun truthy_num :: "rat option \<Rightarrow> bool" where
  "truthy_num None = False"
| "truthy_num (Some n) = (n \<noteq> 0)"

text \<open>\<^verbatim>\<open>a || b\<close> is \<^verbatim>\<open>a\<close> when \<^verbatim>\<open>a\<close> is truthy and \<^verbatim>\<open>b\<close> otherwise, whatever \<^verbatim>\<open>b\<close> is.\<close>

definition or_str :: "string option \<Rightarrow> string option \<Rightarrow> string option" where
  "or_str a b = (if truthy_str a then a else b)"

definition or_num :: "rat option \<Rightarrow> rat option \<Rightarrow> rat option" where
  "or_num a b = (if truthy_num a then a else b)"

text \<open>\<^verbatim>\<open>props.fra_type || props.feature_type\<close>, the first line of every method that looks at
  the type of a feature.\<close>

definition fraType :: "props \<Rightarrow> string option" where
  "fraType p = or_str (fra_type p) (feature_type p)"

text \<open>\<^verbatim>\<open>props.area_claimed || props.area_hectares || 0\<close>\<close>

definition areaOf :: "props \<Rightarrow> rat" where
  "areaOf p = (case or_num (or_num (area_claimed p) (area_hectares p)) (Some 0) of
                 Some a \<Rightarrow> a | None \<Rightarrow> 0)"

subsection \<open>\<^verbatim>\<open>updateStatistics\<close>\<close>

record typeCounts =
  CFR :: nat
  IFR :: nat
  CR :: nat
  Agriculture :: nat
  Water_Body :: nat

text \<open>
  The total area is a double: \<^verbatim>\<open>totalArea += x\<close> rounds, depends on the order of the
  summands and may overflow, and the page shows \<^verbatim>\<open>totalArea.toFixed(1)\<close>. The initial
  total \<^verbatim>\<open>0\<close>, the step \<^verbatim>\<open>+=\<close> and the rendering are the operations of an arithmetic
  over the type \<open>'a\<close> of the totals.
\<close>

record 'a arithmetic =
  zero_total :: 'a
  add :: "'a \<Rightarrow> rat \<Rightarrow> 'a"
  toFixed :: "'a \<Rightarrow> nat \<Rightarrow> string"

record 'a statistics =
  counts :: typeCounts
  totalArea :: 'a
  approvedCount :: nat
  pendingCount :: nat

definition stats0 :: "'a arithmetic \<Rightarrow> 'a statistics" where
  "stats0 ar = \<lparr> counts = \<lparr> CFR = 0, IFR = 0, CR = 0, Agriculture = 0, Water_Body = 0 \<rparr>,
                 totalArea = zero_total ar, approvedCount = 0, pendingCount = 0 \<rparr>"

text \<open>The three steps of the body of \<^verbatim>\<open>features.forEach\<close>: the type counter, the area,
  the status counter.\<close>

definition countType :: "props \<Rightarrow> typeCounts \<Rightarrow> typeCounts" where
  "countType p c =
     (let ft = fraType p in
      if claim_type p = Some ''CFR'' \<or> ft = Some ''Community Forest Resource Rights''
        then c\<lparr>CFR := CFR c + 1\<rparr>
      else if claim_type p = Some ''IFR'' \<or> ft = Some ''Individual Forest Rights''
        then c\<lparr>IFR := IFR c + 1\<rparr>
      else if claim_type p = Some ''CR'' \<or> ft = Some ''Community Rights''
        then c\<lparr>CR := CR c + 1\<rparr>
      else if ft = Some ''Agriculture''
        then c\<lparr>Agriculture := Agriculture c + 1\<rparr>
      else if ft = Some ''Water Body''
        then c\<lparr>Water_Body := Water_Body c + 1\<rparr>
      else c)"

definition countFeature :: "'a arithmetic \<Rightarrow> 'a statistics \<Rightarrow> feature \<Rightarrow> 'a statistics" where
  "countFeature ar s f =
     (let p = properties f;
          s1 = s\<lparr>counts := countType p (counts s)\<rparr>;
          s2 = s1\<lparr>totalArea := add ar (totalArea s1) (areaOf p)\<rparr>
      in if status p = Some ''Approved'' then s2\<lparr>approvedCount := approvedCount s2 + 1\<rparr>
         else if status p = Some ''Pending'' then s2\<lparr>pendingCount := pendingCount s2 + 1\<rparr>
         else s2)"

text \<open>The variables of \<^verbatim>\<open>updateStatistics\<close> after its loop.\<close>

definition statisticsLoop :: "'a arithmetic \<Rightarrow> feature list \<Rightarrow> 'a statistics" where
  "statisticsLoop ar features = foldl (countFeature ar) (stats0 ar) features"

text \<open>
  What \<^verbatim>\<open>updateStatistics\<close> shows: the three counters of the claim types, the number of
  features, the total area with one decimal, the approved and the pending claims on the
  page, and all five type counters in the console.
\<close>

record statsPanel =
  cfr_count :: nat
  ifr_count :: nat
  cr_count :: nat
  total_features :: nat
  total_area :: string
  approved_claims :: nat
  pending_claims :: nat
  logged :: typeCounts

definition updateStatistics :: "'a arithmetic \<Rightarrow> feature list \<Rightarrow> statsPanel" where
  "updateStatistics ar features =
     (let s = statisticsLoop ar features in
      \<lparr> cfr_count = CFR (counts s),
        ifr_count = IFR (counts s),
        cr_count = CR (counts s),
        total_features = length features,
        total_area = toFixed ar (totalArea s) 1,
        approved_claims = approvedCount s,
        pending_claims = pendingCount s,
        logged = counts s \<rparr>)"

definition sumCounts :: "typeCounts \<Rightarrow> nat" where
  "sumCounts c = CFR c + IFR c + CR c + Agriculture c + Water_Body c"

subsection \<open>Property lookup on object literals\<close>

text \<open>
  \<^verbatim>\<open>featureGroups\<close> and \<^verbatim>\<open>this.colors\<close> are object literals read with a computed key.
  Such a read finds the literal's own properties first and then the properties every
  object inherits from \<^verbatim>\<open>Object.prototype\<close>; an inherited value is a function or an
  object, hence truthy, and has no enumerable properties of its own. A key that is
  \<^verbatim>\<open>undefined\<close> is converted to the string \<^verbatim>\<open>"undefined"\<close>.
\<close>

definition objectPrototypeKeys :: "string list" where
  "objectPrototypeKeys =
     [''constructor'', ''__proto__'', ''hasOwnProperty'', ''isPrototypeOf'',
      ''propertyIsEnumerable'', ''toLocaleString'', ''toString'', ''valueOf'',
      ''__defineGetter__'', ''__defineSetter__'', ''__lookupGetter__'', ''__lookupSetter__'']"

datatype 'a property = Own 'a | Inherited | Absent

fun toKey :: "string option \<Rightarrow> string" where
  "toKey None = ''undefined''"
| "toKey (Some s) = s"

definition getProperty :: "(string \<times> 'a) list \<Rightarrow> string option \<Rightarrow> 'a property" where
  "getProperty obj k =
     (case map_of obj (toKey k) of
        Some v \<Rightarrow> Own v
      | None \<Rightarrow> if toKey k \<in> set objectPrototypeKeys then Inherited else Absent)"

subsection \<open>\<^verbatim>\<open>displayFRALayers\<close>\<close>

datatype error = TypeError

type_synonym groups = "(string \<times> feature list) list"

definition featureGroups0 :: groups where
  "featureGroups0 =
     [(''Community Forest Resource Rights'', []),
      (''Individual Forest Rights'', []),
      (''Community Rights'', []),
      (''Agriculture'', []),
      (''Water Body'', [])]"

text \<open>\<^verbatim>\<open>featureGroups[k].push(f)\<close> for an own key \<^verbatim>\<open>k\<close>.\<close>

definition push :: "groups \<Rightarrow> string \<Rightarrow> feature \<Rightarrow> groups" where
  "push g k f = map (\<lambda>(k', fs). if k' = k then (k', fs @ [f]) else (k', fs)) g"

text \<open>
  The body of the grouping loop. When \<^verbatim>\<open>featureGroups[fraType]\<close> is an inherited value the
  condition holds and the call of its missing \<^verbatim>\<open>push\<close> raises a TypeError. The legacy
  branch has no final \<^verbatim>\<open>else\<close>: a feature it does not recognise is pushed nowhere.
\<close>

definition groupFeature :: "groups \<Rightarrow> feature \<Rightarrow> error + groups" where
  "groupFeature g f =
     (let ft = fraType (properties f) in
      case getProperty g ft of
        Own _ \<Rightarrow> Inr (push g (toKey ft) f)
      | Inherited \<Rightarrow> Inl TypeError
      | Absent \<Rightarrow>
          if claim_type (properties f) = Some ''CFR''
            then Inr (push g ''Community Forest Resource Rights'' f)
          else if claim_type (properties f) = Some ''IFR''
            then Inr (push g ''Individual Forest Rights'' f)
          else if claim_type (properties f) = Some ''CR''
            then Inr (push g ''Community Rights'' f)
          else Inr g)"

fun groupAll :: "groups \<Rightarrow> feature list \<Rightarrow> error + groups" where
  "groupAll g [] = Inr g"
| "groupAll g (f # fs) =
     (case groupFeature g f of Inl e \<Rightarrow> Inl e | Inr g' \<Rightarrow> groupAll g' fs)"

definition layerOrder :: "string list" where
  "layerOrder =
     [''Community Forest Resource Rights'', ''Agriculture'', ''Water Body'',
      ''Community Rights'', ''Individual Forest Rights'']"

text \<open>The loop over \<^verbatim>\<open>layerOrder\<close>: a group that is not empty becomes a layer on the map;
  the result lists the layers in the order they are added, bottom first.\<close>

fun addLayers :: "groups \<Rightarrow> string list \<Rightarrow> error + (string \<times> feature list) list" where
  "addLayers g [] = Inr []"
| "addLayers g (t # ts) =
     (case map_of g t of
        None \<Rightarrow> Inl TypeError
      | Some fs \<Rightarrow>
          (case addLayers g ts of
             Inl e \<Rightarrow> Inl e
           | Inr ls \<Rightarrow> Inr (if length fs > 0 then (t, fs) # ls else ls)))"

definition displayFRALayers :: "feature list \<Rightarrow> error + (string \<times> feature list) list" where
  "displayFRALayers features =
     (case groupAll featureGroups0 features of
        Inl e \<Rightarrow> Inl e
      | Inr g \<Rightarrow> addLayers g layerOrder)"

subsection \<open>\<^verbatim>\<open>getFeatureStyle\<close>\<close>

text \<open>A style object; \<open>None\<close> is a key the object does not have. \<^verbatim>\<open>dashArray\<close> may be
  present with the value \<^verbatim>\<open>null\<close>, which is \<open>Some None\<close>.\<close>

record style =
  color :: "string option"
  fillColor :: "string option"
  fillOpacity :: "rat option"
  weight :: "rat option"
  opacity :: "rat option"
  dashArray :: "string option option"

definition noStyle :: style where
  "noStyle = \<lparr> color = None, fillColor = None, fillOpacity = None,
               weight = None, opacity = None, dashArray = None \<rparr>"

text \<open>\<^verbatim>\<open>{...a, ...b}\<close>: the keys of \<^verbatim>\<open>b\<close> override those of \<^verbatim>\<open>a\<close>.\<close>

definition orElse :: "'a option \<Rightarrow> 'a option \<Rightarrow> 'a option" where
  "orElse b a = (case b of None \<Rightarrow> a | Some v \<Rightarrow> Some v)"

definition assign :: "style \<Rightarrow> style \<Rightarrow> style" where
  "assign a b =
     \<lparr> color = orElse (color b) (color a),
       fillColor = orElse (fillColor b) (fillColor a),
       fillOpacity = orElse (fillOpacity b) (fillOpacity a),
       weight = orElse (weight b) (weight a),
       opacity = orElse (opacity b) (opacity a),
       dashArray = orElse (dashArray b) (dashArray a) \<rparr>"

definition baseRule :: "string \<Rightarrow> string \<Rightarrow> rat \<Rightarrow> style" where
  "baseRule c fc fo = noStyle\<lparr> color := Some c, fillColor := Some fc, fillOpacity := Some fo \<rparr>"

definition colors :: "(string \<times> style) list" where
  "colors =
     [(''CFR'', baseRule ''#8B4513'' ''#A0522D'' (4/10)),
      (''IFR'', baseRule ''#FF6B35'' ''#F7931E'' (6/10)),
      (''CR'', baseRule ''#9B59B6'' ''#8E44AD'' (6/10)),
      (''Agriculture'', baseRule ''#2ECC71'' ''#27AE60'' (7/10)),
      (''Water Body'', baseRule ''#3498DB'' ''#2980B9'' (8/10))]"

definition fallbackStyle :: style where
  "fallbackStyle = baseRule ''#333333'' ''#666666'' (5/10)"

definition styleKeyOf :: "props \<Rightarrow> string option" where
  "styleKeyOf p =
     (let ft = fraType p in
      if claim_type p = Some ''CFR'' \<or> ft = Some ''Community Forest Resource Rights''
        then Some ''CFR''
      else if claim_type p = Some ''IFR'' \<or> ft = Some ''Individual Forest Rights''
        then Some ''IFR''
      else if claim_type p = Some ''CR'' \<or> ft = Some ''Community Rights''
        then Some ''CR''
      else if ft = Some ''Agriculture'' then Some ''Agriculture''
      else if ft = Some ''Water Body'' then Some ''Water Body''
      else ft)"

text \<open>\<^verbatim>\<open>this.colors[styleKey] || {...}\<close>: an inherited value is truthy, so the fallback is
  not taken, and spreading it contributes no key.\<close>

definition baseStyleOf :: "string option \<Rightarrow> style" where
  "baseStyleOf styleKey =
     (case getProperty colors styleKey of
        Own b \<Rightarrow> b
      | Inherited \<Rightarrow> noStyle
      | Absent \<Rightarrow> fallbackStyle)"

definition getFeatureStyle :: "feature \<Rightarrow> style" where
  "getFeatureStyle f =
     (let styleKey = styleKeyOf (properties f) in
      assign (baseStyleOf styleKey)
        (noStyle\<lparr> weight := Some (if styleKey = Some ''CFR'' then 3 else 2),
                  opacity := Some (8/10),
                  dashArray := Some (if status (properties f) = Some ''Pending''
                                     then Some ''5, 5'' else None) \<rparr>))"

subsection \<open>The viewer's data, \<^verbatim>\<open>applyFilters\<close> and \<^verbatim>\<open>clearFilters\<close>\<close>

record viewer =
  fraData :: "feature list"
  filteredData :: "feature list"

text \<open>The values of the five dropdowns read by \<^verbatim>\<open>applyFilters\<close>; the entry "All ..." of a
  dropdown has the empty string as its value.\<close>

record filters =
  state_filter :: string
  district_filter :: string
  village_filter :: string
  fra_type_filter :: string
  status_filter :: string

text \<open>The chain that sets \<^verbatim>\<open>matches\<close> for a chosen type \<^verbatim>\<open>t\<close>.\<close>

definition typeMatches :: "string \<Rightarrow> props \<Rightarrow> bool" where
  "typeMatches t p =
     (let ft = fraType p in
      if t = ''Community Forest Resource Rights'' \<and>
         (claim_type p = Some ''CFR'' \<or> ft = Some ''Community Forest Resource Rights'') then True
      else if t = ''Individual Forest Rights'' \<and>
         (claim_type p = Some ''IFR'' \<or> ft = Some ''Individual Forest Rights'') then True
      else if t = ''Community Rights'' \<and>
         (claim_type p = Some ''CR'' \<or> ft = Some ''Community Rights'') then True
      else if Some t = ft then True
      else False)"

text \<open>The callback given to \<^verbatim>\<open>features.filter\<close>, one early return after the other.\<close>

definition keep :: "filters \<Rightarrow> feature \<Rightarrow> bool" where
  "keep fl f =
     (let p = properties f in
      if state_filter fl \<noteq> [] \<and> state p \<noteq> Some (state_filter fl) then False
      else if district_filter fl \<noteq> [] \<and> district p \<noteq> Some (district_filter fl) then False
      else if village_filter fl \<noteq> [] \<and> village p \<noteq> Some (village_filter fl) then False
      else if fra_type_filter fl \<noteq> [] \<and> \<not> typeMatches (fra_type_filter fl) p then False
      else if status_filter fl \<noteq> [] \<and> status p \<noteq> Some (status_filter fl) then False
      else True)"

definition applyFilters :: "filters \<Rightarrow> viewer \<Rightarrow> viewer" where
  "applyFilters fl v = v\<lparr> filteredData := filter (keep fl) (fraData v) \<rparr>"

definition clearFilters :: "viewer \<Rightarrow> viewer" where
  "clearFilters v = v\<lparr> filteredData := fraData v \<rparr>"

subsection \<open>\<^verbatim>\<open>updateDistrictFilter\<close> and \<^verbatim>\<open>updateVillageFilter\<close>\<close>

text \<open>\<^verbatim>\<open>[...new Set(xs)]\<close> keeps the first occurrence of every value, in order.\<close>

definition Set_add :: "'a list \<Rightarrow> 'a \<Rightarrow> 'a list" where
  "Set_add s x = (if x \<in> set s then s else s @ [x])"

definition new_Set :: "'a list \<Rightarrow> 'a list" where
  "new_Set xs = foldl Set_add [] xs"

text \<open>\<^verbatim>\<open>Array.prototype.sort\<close> without a comparator orders strings by their code units and
  moves every \<^verbatim>\<open>undefined\<close> to the end.\<close>

definition definedOnes :: "'a option list \<Rightarrow> 'a list" where
  "definedOnes xs = concat (map (\<lambda>x. case x of None \<Rightarrow> [] | Some s \<Rightarrow> [s]) xs)"

definition js_sort :: "string option list \<Rightarrow> string option list" where
  "js_sort xs = map Some (sort (definedOnes xs)) @ filter (\<lambda>x. x = None) xs"

text \<open>
  Both methods empty the dropdown down to its first entry ("All Districts", "All
  Villages") and return at once when the selection above is empty; otherwise they append
  one entry per element of the sorted array. The functions return that array, which is
  empty after the early return.
\<close>

definition updateDistrictFilter :: "string \<Rightarrow> viewer \<Rightarrow> string option list" where
  "updateDistrictFilter selectedState v =
     (if selectedState = [] then []
      else js_sort (new_Set (map (\<lambda>f. district (properties f))
             (filter (\<lambda>f. state (properties f) = Some selectedState) (fraData v)))))"

definition updateVillageFilter :: "string \<Rightarrow> string \<Rightarrow> viewer \<Rightarrow> string option list" where
  "updateVillageFilter selectedState selectedDistrict v =
     (if selectedState = [] \<or> selectedDistrict = [] then []
      else js_sort (new_Set (map (\<lambda>f. village (properties f))
             (filter (\<lambda>f. state (properties f) = Some selectedState \<and>
                           district (properties f) = Some selectedDistrict) (fraData v)))))"

subsection \<open>\<^verbatim>\<open>highlightFeature\<close>, \<^verbatim>\<open>resetView\<close> and the hover handlers\<close>

text \<open>
  Every feature of a layer is drawn as a path of the map library, which keeps the feature
  and the current style options; \<^verbatim>\<open>setStyle\<close> overrides the options whose keys it is
  given. Paths are addressed by their position in the list of all paths, and
  \<^verbatim>\<open>this.currentFeature\<close> holds such a position or \<^verbatim>\<open>null\<close>.
\<close>

record path =
  feature :: feature
  options :: style

record selection =
  currentFeature :: "nat option"
  paths :: "path list"

definition setStyle :: "nat \<Rightarrow> style \<Rightarrow> path list \<Rightarrow> path list" where
  "setStyle i st ps =
     (if i < length ps then ps[i := (ps ! i)\<lparr> options := assign (options (ps ! i)) st \<rparr>] else ps)"

definition highlightStyle :: style where
  "highlightStyle = noStyle\<lparr> weight := Some 5, color := Some ''#ffff00'',
                              opacity := Some 1, fillOpacity := Some (9/10) \<rparr>"

definition hoverStyle :: style where
  "hoverStyle = noStyle\<lparr> weight := Some 4, opacity := Some 1, fillOpacity := Some (8/10) \<rparr>"

definition restore :: "nat \<Rightarrow> path list \<Rightarrow> path list" where
  "restore i ps =
     (if i < length ps then setStyle i (getFeatureStyle (feature (ps ! i))) ps else ps)"

definition highlightFeature :: "nat \<Rightarrow> selection \<Rightarrow> selection" where
  "highlightFeature target s =
     (let ps = (case currentFeature s of None \<Rightarrow> paths s | Some c \<Rightarrow> restore c (paths s))
      in \<lparr> currentFeature = Some target, paths = setStyle target highlightStyle ps \<rparr>)"

definition resetView :: "selection \<Rightarrow> selection" where
  "resetView s =
     (case currentFeature s of
        None \<Rightarrow> s
      | Some c \<Rightarrow> \<lparr> currentFeature = None, paths = restore c (paths s) \<rparr>)"

definition mouseover :: "nat \<Rightarrow> selection \<Rightarrow> selection" where
  "mouseover i s = s\<lparr> paths := setStyle i hoverStyle (paths s) \<rparr>"

definition mouseout :: "nat \<Rightarrow> selection \<Rightarrow> selection" where
  "mouseout i s = s\<lparr> paths := restore i (paths s) \<rparr>"

text \<open>The paths that \<^verbatim>\<open>L.geoJSON\<close> creates for the layers of \<^verbatim>\<open>displayFRALayers\<close>, each
  styled by \<^verbatim>\<open>getFeatureStyle\<close>.\<close>

definition newPath :: "feature \<Rightarrow> path" where
  "newPath f = \<lparr> feature = f, options = getFeatureStyle f \<rparr>"

definition pathsOf :: "(string \<times> feature list) list \<Rightarrow> path list" where
  "pathsOf ls = concat (map (\<lambda>(t, fs). map newPath fs) ls)"

text \<open>The states the viewer can be in after the layers were drawn: clicks on a path,
  the reset button, and the pointer entering or leaving a path.\<close>

inductive reachable :: "selection \<Rightarrow> bool" where
  drawn: "displayFRALayers features = Inr ls \<Longrightarrow>
          reachable \<lparr> currentFeature = None, paths = pathsOf ls \<rparr>"
| click: "reachable s \<Longrightarrow> i < length (paths s) \<Longrightarrow> reachable (highlightFeature i s)"
| reset: "reachable s \<Longrightarrow> reachable (resetView s)"
| enter: "reachable s \<Longrightarrow> i < length (paths s) \<Longrightarrow> reachable (mouseover i s)"
| leave: "reachable s \<Longrightarrow> i < length (paths s) \<Longrightarrow> reachable (mouseout i s)"

text \<open>A path shows the highlight while its stroke has the highlight colour, which no
  other style of the viewer sets.\<close>

definition highlighted :: "path \<Rightarrow> bool" where
  "highlighted p = (color (options p) = color highlightStyle)"

subsection \<open>Notions used to state the properties\<close>

text \<open>The key of the group that the grouping loop pushes a feature to, when the read of
  \<^verbatim>\<open>featureGroups[fraType]\<close> does not hit an inherited property.\<close>

definition targetGroup :: "props \<Rightarrow> string option" where
  "targetGroup p =
     (let ft = fraType p in
      if toKey ft \<in> set layerOrder then Some (toKey ft)
      else if claim_type p = Some ''CFR'' then Some ''Community Forest Resource Rights''
      else if claim_type p = Some ''IFR'' then Some ''Individual Forest Rights''
      else if claim_type p = Some ''CR'' then Some ''Community Rights''
      else None)"

definition inheritedKey :: "string option \<Rightarrow> bool" where
  "inheritedKey k = (toKey k \<in> set objectPrototypeKeys)"

text \<open>The grouping object keeps its five keys while the loop runs.\<close>

definition fiveKeys :: "groups \<Rightarrow> bool" where
  "fiveKeys g = (map fst g = map fst featureGroups0)"

definition extend :: "groups \<Rightarrow> feature list \<Rightarrow> groups" where
  "extend g fs =
     map (\<lambda>(k, old). (k, old @ filter (\<lambda>f. targetGroup (properties f) = Some k) fs)) g"

definition groupOfType :: "string \<Rightarrow> feature list \<Rightarrow> feature list" where
  "groupOfType t fs = filter (\<lambda>f. targetGroup (properties f) = Some t) fs"

text \<open>A style that has all six keys.\<close>

definition complete :: "style \<Rightarrow> bool" where
  "complete st =
     (color st \<noteq> None \<and> fillColor st \<noteq> None \<and> fillOpacity st \<noteq> None \<and>
      weight st \<noteq> None \<and> opacity st \<noteq> None \<and> dashArray st \<noteq> None)"

text \<open>The invariant of the highlight: the current feature is a path, only the current
  feature can show the highlight, and the normal style of every path has all six keys.\<close>

definition steady :: "selection \<Rightarrow> bool" where
  "steady s =
     ((\<forall>c. currentFeature s = Some c \<longrightarrow> c < length (paths s))
      \<and> (\<forall>i<length (paths s). highlighted (paths s ! i) \<longrightarrow> currentFeature s = Some i)
      \<and> (\<forall>i<length (paths s). complete (getFeatureStyle (feature (paths s ! i)))))"

subsection \<open>Sample data\<close>

definition props0 :: props where
  "props0 = \<lparr> fra_type = None, feature_type = None, claim_type = None, status = None,
               state = None, district = None, village = None,
               area_claimed = None, area_hectares = None \<rparr>"

definition sample :: "props \<Rightarrow> feature" where
  "sample p = \<lparr> geometry = [], properties = p \<rparr>"

definition f_ifr :: feature where
  "f_ifr = sample (props0\<lparr> claim_type := Some ''IFR'', status := Some ''Approved'',
                           state := Some ''Odisha'', district := Some ''Mayurbhanj'',
                           village := Some ''Baripada'', area_claimed := Some (25/10) \<rparr>)"

definition f_cfr :: feature where
  "f_cfr = sample (props0\<lparr> claim_type := Some ''CFR'', status := Some ''Pending'',
                           state := Some ''Odisha'', district := Some ''Keonjhar'',
                           village := Some ''Anandapur'', area_claimed := Some (63/4) \<rparr>)"

definition f_water :: feature where
  "f_water = sample (props0\<lparr> fra_type := Some ''Water Body'',
                             state := Some ''Tripura'', district := Some ''Dhalai'',
                             area_claimed := Some 0, area_hectares := Some 0 \<rparr>)"

definition f_cfr_descriptive :: feature where
  "f_cfr_descriptive =
     sample (props0\<lparr> fra_type := Some ''Community Forest Resource Rights'',
                      status := Some ''Pending'', state := Some ''Odisha'',
                      district := Some ''Keonjhar'', area_hectares := Some 12 \<rparr>)"

definition f_unknown :: feature where
  "f_unknown = sample (props0\<lparr> fra_type := Some ''Grazing Land'', status := Some ''Approved'',
                               state := Some ''Odisha'', district := Some ''Mayurbhanj'',
                               area_claimed := Some 0, area_hectares := Some 12 \<rparr>)"

definition f_conflict :: feature where
  "f_conflict = sample (props0\<lparr> claim_type := Some ''IFR'',
                                fra_type := Some ''Community Forest Resource Rights'',
                                state := Some ''Odisha'', district := Some ''Mayurbhanj'' \<rparr>)"

definition f_cfr_agri :: feature where
  "f_cfr_agri = sample (props0\<lparr> claim_type := Some ''CFR'', feature_type := Some ''Agriculture'',
                                status := Some ''Pending'' \<rparr>)"

definition f_toString :: feature where
  "f_toString = sample (props0\<lparr> fra_type := Some ''toString'', status := Some ''Approved'' \<rparr>)"

text \<open>
  An arithmetic without rounding for the sample data: rational totals with their sum, and
  the rendering of Number.prototype.toFixed for numbers below ten to the power 21 (the nearest
  decimal with the given number of digits, the larger one of two). The sample areas are
  binary fractions that doubles add without rounding.
\<close>

definition digit :: "nat \<Rightarrow> char" where
  "digit n = ''0123456789'' ! n"

function decimal :: "nat \<Rightarrow> string" where
  "decimal n = (if n < 10 then [digit n] else decimal (n div 10) @ [digit (n mod 10)])"
  by pat_completeness auto
termination
  by (relation "measure (\<lambda>n. n)") auto

definition fixedPoint :: "rat \<Rightarrow> nat \<Rightarrow> string" where
  "fixedPoint x d =
     (let n = nat \<lfloor>\<bar>x\<bar> * 10 ^ d + 1/2\<rfloor>;
          ds = decimal n;
          padded = replicate (Suc d - length ds) (CHR ''0'') @ ds;
          k = length padded - d
      in (if x < 0 then ''-'' else []) @ take k padded
         @ (if d = 0 then [] else ''.'' @ drop k padded))"

definition exact :: "rat arithmetic" where
  "exact = \<lparr> zero_total = 0, add = (+), toFixed = fixedPoint \<rparr>"

definition noFilters :: filters where
  "noFilters = \<lparr> state_filter = [], district_filter = [], village_filter = [],
                  fra_type_filter = [], status_filter = [] \<rparr>"

definition loaded :: "feature list \<Rightarrow> viewer" where
  "loaded fs = \<lparr> fraData = fs, filteredData = fs \<rparr>"

text \<open>The paths drawn for one community forest resource and one individual claim.\<close>

definition sel0 :: selection where
  "sel0 = \<lparr> currentFeature = None, paths = map newPath [f_cfr, f_ifr] \<rparr>"

section \<open>Properties of \<^verbatim>\<open>updateStatistics\<close>\<close>

lemma counts_countFeature:
  "counts (countFeature ar s f) = countType (properties f) (counts s)"
  by (simp add: countFeature_def Let_def)

lemma totalArea_countFeature:
  "totalArea (countFeature ar s f) = add ar (totalArea s) (areaOf (properties f))"
  by (simp add: countFeature_def Let_def)

lemma sumCounts_countType:
  "sumCounts (countType p c) = sumCounts c +
     (if claim_type p \<in> {Some ''CFR'', Some ''IFR'', Some ''CR''} \<or>
         fraType p \<in> {Some ''Community Forest Resource Rights'', Some ''Individual Forest Rights'',
                       Some ''Community Rights'', Some ''Agriculture'', Some ''Water Body''}
      then 1 else 0)"
  by (simp add: countType_def sumCounts_def Let_def)

lemma sumCounts_foldl:
  "sumCounts (counts (foldl (countFeature ar) s X)) = sumCounts (counts s) +
     length (filter (\<lambda>f. claim_type (properties f) \<in> {Some ''CFR'', Some ''IFR'', Some ''CR''} \<or>
         fraType (properties f) \<in>
           {Some ''Community Forest Resource Rights'', Some ''Individual Forest Rights'',
            Some ''Community Rights'', Some ''Agriculture'', Some ''Water Body''}) X)"
proof (induction X arbitrary: s)
  case Nil
  show ?case by simp
next
  case (Cons f X)
  show ?case
    unfolding foldl_Cons Cons.IH counts_countFeature sumCounts_countType
    by simp
qed

lemma totalArea_foldl:
  "totalArea (foldl (countFeature ar) s X) =
     foldl (add ar) (totalArea s) (map (\<lambda>f. areaOf (properties f)) X)"
  by (induction X arbitrary: s) (simp_all add: totalArea_countFeature)

lemma totalArea_snoc:
  "totalArea (statisticsLoop ar (X @ [f])) =
     add ar (totalArea (statisticsLoop ar X)) (areaOf (properties f))"
  by (simp add: statisticsLoop_def totalArea_countFeature)

lemmas sample_simps =
  sample_def props0_def f_ifr_def f_cfr_def f_water_def f_cfr_descriptive_def f_unknown_def
  f_conflict_def f_cfr_agri_def f_toString_def

lemmas stats_simps =
  updateStatistics_def statisticsLoop_def countFeature_def countType_def stats0_def
  sumCounts_def areaOf_def fraType_def or_str_def or_num_def Let_def exact_def

text \<open>
  C1, as the viewer computes it. The five type counters add up to the number of features
  that carry a recognised type (a \<^verbatim>\<open>claim_type\<close> code or one of the five descriptive
  names); a feature of any other type increments no counter, so the sum is at most the
  total, which is the number of features, and equals it exactly when every feature is
  recognised. The total area shown is the rendering with one decimal of the sum of the
  areas of all features, added one after the other in the order of the array, starting
  from 0, by the addition of the viewer's numbers.
\<close>

theorem updateStatistics_counts_and_area:
  "sumCounts (logged (updateStatistics ar X)) =
     length (filter (\<lambda>f. claim_type (properties f) \<in> {Some ''CFR'', Some ''IFR'', Some ''CR''} \<or>
         fraType (properties f) \<in>
           {Some ''Community Forest Resource Rights'', Some ''Individual Forest Rights'',
            Some ''Community Rights'', Some ''Agriculture'', Some ''Water Body''}) X)
   \<and> sumCounts (logged (updateStatistics ar X)) \<le> total_features (updateStatistics ar X)
   \<and> total_features (updateStatistics ar X) = length X
   \<and> cfr_count (updateStatistics ar X) = CFR (logged (updateStatistics ar X))
   \<and> ifr_count (updateStatistics ar X) = IFR (logged (updateStatistics ar X))
   \<and> cr_count (updateStatistics ar X) = CR (logged (updateStatistics ar X))
   \<and> total_area (updateStatistics ar X) =
       toFixed ar (foldl (add ar) (zero_total ar) (map (\<lambda>f. areaOf (properties f)) X)) 1"
proof -
  have s: "sumCounts (counts (stats0 ar)) = 0" and a: "totalArea (stats0 ar) = zero_total ar"
    by (simp_all add: stats0_def sumCounts_def)
  show ?thesis
    by (simp add: updateStatistics_def statisticsLoop_def Let_def sumCounts_foldl
          totalArea_foldl s a)
qed

text \<open>The scenario of three features, with areas 2.5, 15.75 and 0: the counters add up to
  3, the total is 3 and the area is shown as 18.3.\<close>

theorem updateStatistics_counts_and_area_witness:
  "sumCounts (logged (updateStatistics exact [f_ifr, f_cfr, f_water])) = 3
   \<and> total_features (updateStatistics exact [f_ifr, f_cfr, f_water]) = 3
   \<and> total_area (updateStatistics exact [f_ifr, f_cfr, f_water]) = ''18.3''"
proof -
  have r: "fixedPoint (73/4) 1 = ''18.3''"
    by code_simp
  show ?thesis
    using updateStatistics_counts_and_area [of exact "[f_ifr, f_cfr, f_water]"] r
    by (simp add: sample_simps areaOf_def fraType_def or_str_def or_num_def exact_def)
qed

text \<open>C1 as stated fails: a feature of an unrecognised type is counted in the total and
  in no type counter.\<close>

theorem updateStatistics_unknown_counterexample:
  "sumCounts (logged (updateStatistics exact [f_unknown])) = 0
   \<and> total_features (updateStatistics exact [f_unknown]) = 1"
  by (simp add: stats_simps sample_simps)

text \<open>
  C10. The area of a feature in the aggregation is \<^verbatim>\<open>area_claimed\<close> when that is a nonzero
  number, else \<^verbatim>\<open>area_hectares\<close> when that is a nonzero number, else 0; each feature adds
  this value to the total. A feature with \<^verbatim>\<open>area_claimed\<close> 0 and \<^verbatim>\<open>area_hectares\<close> \<open>h\<close>
  adds \<open>h\<close>.
\<close>

theorem area_fallback_chain:
  "(\<forall>a. area_claimed p = Some a \<and> a \<noteq> 0 \<longrightarrow> areaOf p = a)
   \<and> (\<forall>h. area_claimed p \<in> {None, Some 0} \<and> area_hectares p = Some h \<longrightarrow> areaOf p = h)
   \<and> (area_claimed p \<in> {None, Some 0} \<and> area_hectares p \<in> {None, Some 0} \<longrightarrow> areaOf p = 0)
   \<and> (properties f = p \<longrightarrow>
        totalArea (statisticsLoop ar (X @ [f])) =
          add ar (totalArea (statisticsLoop ar X)) (areaOf p)
        \<and> total_area (updateStatistics ar (X @ [f])) =
          toFixed ar (add ar (totalArea (statisticsLoop ar X)) (areaOf p)) 1)"
  by (auto simp: areaOf_def or_num_def updateStatistics_def totalArea_snoc Let_def)

theorem area_fallback_chain_witness:
  "area_claimed (properties f_unknown) = Some 0
   \<and> area_hectares (properties f_unknown) = Some 12
   \<and> areaOf (properties f_unknown) = 12
   \<and> totalArea (statisticsLoop exact ([f_ifr] @ [f_unknown])) =
        totalArea (statisticsLoop exact [f_ifr]) + 12"
  using area_fallback_chain [of "properties f_unknown" f_unknown exact "[f_ifr]"]
  by (simp add: sample_simps exact_def)

section \<open>Properties of \<^verbatim>\<open>displayFRALayers\<close>\<close>

lemma keys_push: "map fst (push g k f) = map fst g"
  by (induction g) (auto simp: push_def)

lemma fiveKeys_push: "fiveKeys g \<Longrightarrow> fiveKeys (push g k f)"
  by (simp add: fiveKeys_def keys_push)

lemma fiveKeys_0: "fiveKeys featureGroups0"
  by (simp add: fiveKeys_def)

lemma map_of_fiveKeys:
  "fiveKeys g \<Longrightarrow> (map_of g k = None) = (k \<notin> set layerOrder)"
proof -
  assume "fiveKeys g"
  then have "fst ` set g = set (map fst featureGroups0)"
    unfolding fiveKeys_def by (metis set_map)
  then show ?thesis
    by (auto simp: map_of_eq_None_iff featureGroups0_def layerOrder_def)
qed

lemma layerOrder_not_inherited: "k \<in> set layerOrder \<Longrightarrow> k \<notin> set objectPrototypeKeys"
  by (auto simp: layerOrder_def objectPrototypeKeys_def)

lemma getProperty_groups:
  assumes "fiveKeys g"
  shows "getProperty g k =
           (if toKey k \<in> set layerOrder then Own (the (map_of g (toKey k)))
            else if inheritedKey k then Inherited else Absent)"
  using map_of_fiveKeys[OF assms, of "toKey k"]
  by (auto simp: getProperty_def inheritedKey_def split: option.splits)

lemma groupFeature_eq:
  assumes "fiveKeys g"
  shows "groupFeature g f =
           (if inheritedKey (fraType (properties f)) then Inl TypeError
            else Inr (case targetGroup (properties f) of None \<Rightarrow> g | Some t \<Rightarrow> push g t f))"
  using layerOrder_not_inherited[of "toKey (fraType (properties f))"]
  by (simp add: groupFeature_def getProperty_groups[OF assms] targetGroup_def Let_def inheritedKey_def)

lemma extend_Nil: "extend g [] = g"
  by (induction g) (auto simp: extend_def)

lemma extend_Cons_Some:
  "targetGroup (properties f) = Some t \<Longrightarrow> extend (push g t f) fs = extend g (f # fs)"
  by (induction g) (auto simp: extend_def push_def)

lemma extend_Cons_None:
  "targetGroup (properties f) = None \<Longrightarrow> extend g (f # fs) = extend g fs"
  by (induction g) (auto simp: extend_def)

lemma groupAll_Cons_crash:
  "fiveKeys g \<Longrightarrow> inheritedKey (fraType (properties f)) \<Longrightarrow> groupAll g (f # fs) = Inl TypeError"
  by (simp add: groupFeature_eq)

lemma groupAll_Cons_None:
  "fiveKeys g \<Longrightarrow> \<not> inheritedKey (fraType (properties f)) \<Longrightarrow>
   targetGroup (properties f) = None \<Longrightarrow> groupAll g (f # fs) = groupAll g fs"
  by (simp add: groupFeature_eq)

lemma groupAll_Cons_Some:
  "fiveKeys g \<Longrightarrow> \<not> inheritedKey (fraType (properties f)) \<Longrightarrow>
   targetGroup (properties f) = Some t \<Longrightarrow> groupAll g (f # fs) = groupAll (push g t f) fs"
  by (simp add: groupFeature_eq)

lemma groupAll_eq:
  "fiveKeys g \<Longrightarrow>
   groupAll g fs =
     (if \<exists>f\<in>set fs. inheritedKey (fraType (properties f)) then Inl TypeError
      else Inr (extend g fs))"
proof (induction fs arbitrary: g)
  case Nil
  show ?case by (simp add: extend_Nil)
next
  case (Cons f fs)
  show ?case
  proof (cases "inheritedKey (fraType (properties f))")
    case True
    then show ?thesis
      by (simp del: groupAll.simps add: groupAll_Cons_crash[OF Cons.prems])
  next
    case False
    show ?thesis
    proof (cases "targetGroup (properties f)")
      case None
      have "groupAll g (f # fs) = groupAll g fs"
        by (rule groupAll_Cons_None[OF Cons.prems False None])
      also have "\<dots> = (if \<exists>f\<in>set fs. inheritedKey (fraType (properties f)) then Inl TypeError
                     else Inr (extend g fs))"
        by (rule Cons.IH[OF Cons.prems])
      finally show ?thesis
        by (simp del: groupAll.simps add: False extend_Cons_None[OF None])
    next
      case (Some t)
      have "groupAll g (f # fs) = groupAll (push g t f) fs"
        by (rule groupAll_Cons_Some[OF Cons.prems False Some])
      also have "\<dots> = (if \<exists>f\<in>set fs. inheritedKey (fraType (properties f)) then Inl TypeError
                     else Inr (extend (push g t f) fs))"
        by (rule Cons.IH[OF fiveKeys_push[OF Cons.prems]])
      finally show ?thesis
        by (simp del: groupAll.simps add: False extend_Cons_Some[OF Some])
    qed
  qed
qed

lemma map_of_extend:
  "map_of (extend g fs) t = map_option (\<lambda>old. old @ groupOfType t fs) (map_of g t)"
  by (induction g) (auto simp: extend_def groupOfType_def)

lemma map_of_featureGroups0: "t \<in> set layerOrder \<Longrightarrow> map_of featureGroups0 t = Some []"
  unfolding layerOrder_def featureGroups0_def by fastforce

lemma addLayers_extend:
  "set ts \<subseteq> set layerOrder \<Longrightarrow>
   addLayers (extend featureGroups0 fs) ts =
     Inr (filter (\<lambda>(t, g). g \<noteq> []) (map (\<lambda>t. (t, groupOfType t fs)) ts))"
proof (induction ts)
  case Nil
  show ?case by simp
next
  case (Cons t ts)
  then have t: "t \<in> set layerOrder" and ts: "set ts \<subseteq> set layerOrder" by auto
  have m: "map_of (extend featureGroups0 fs) t = Some (groupOfType t fs)"
    by (simp add: map_of_extend map_of_featureGroups0[OF t])
  show ?case
    by (simp add: m Cons.IH[OF ts])
qed

lemma displayFRALayers_eq:
  "displayFRALayers fs =
     (if \<exists>f\<in>set fs. inheritedKey (fraType (properties f)) then Inl TypeError
      else Inr (filter (\<lambda>(t, g). g \<noteq> []) (map (\<lambda>t. (t, groupOfType t fs)) layerOrder)))"
proof -
  have a: "addLayers (extend featureGroups0 fs) layerOrder =
     Inr (filter (\<lambda>(t, g). g \<noteq> []) (map (\<lambda>t. (t, groupOfType t fs)) layerOrder))"
    by (rule addLayers_extend) simp
  show ?thesis
    unfolding displayFRALayers_def groupAll_eq[OF fiveKeys_0]
    by (simp add: a)
qed

lemma drawn_types:
  "map fst (filter (\<lambda>(t, g). g \<noteq> []) (map (\<lambda>t. (t, groupOfType t fs)) ts)) =
     filter (\<lambda>t. \<exists>f\<in>set fs. targetGroup (properties f) = Some t) ts"
  by (induction ts) (auto simp: groupOfType_def filter_empty_conv)

lemmas eval_simps =
  displayFRALayers_def groupFeature_def getProperty_def push_def featureGroups0_def
  layerOrder_def objectPrototypeKeys_def fraType_def or_str_def Let_def

lemma absent_iff:
  "fiveKeys g \<Longrightarrow>
   (getProperty g k = Absent) = (toKey k \<notin> set layerOrder \<and> \<not> inheritedKey k)"
  by (simp add: getProperty_groups)

text \<open>
  When no feature has a type that names an inherited property, the layers are those of
  \<^verbatim>\<open>layerOrder\<close> to which some feature is assigned, in that order, each with exactly its
  features; two arrays with the same features then give the same layers with the same
  sets of features.
\<close>

lemma layers_as_sets:
  "map (\<lambda>(t, g). (t, set g)) (filter (\<lambda>(t, g). g \<noteq> []) (map (\<lambda>t. (t, groupOfType t fs)) ts)) =
     map (\<lambda>t. (t, {f \<in> set fs. targetGroup (properties f) = Some t}))
       (filter (\<lambda>t. \<exists>f\<in>set fs. targetGroup (properties f) = Some t) ts)"
  by (induction ts) (auto simp: groupOfType_def filter_empty_conv)

lemma drawn_layers_of_same_features:
  assumes "set xs = set ys"
  shows "map_sum id (map (\<lambda>(t, g). (t, set g))) (displayFRALayers xs) =
         map_sum id (map (\<lambda>(t, g). (t, set g))) (displayFRALayers ys)"
  unfolding displayFRALayers_eq using assms by (simp add: layers_as_sets)

lemma drawn_layer_types:
  assumes "displayFRALayers xs = Inr ls"
  shows "map fst ls = filter (\<lambda>t. \<exists>f\<in>set xs. targetGroup (properties f) = Some t) layerOrder"
  using assms by (auto simp: displayFRALayers_eq drawn_types split: if_splits)

text \<open>
  C6 at a feature whose type is the name of a property that every object inherits. The
  individual claim alone is drawn as one layer. With the feature of type "toString" in
  the array, before or after it, the condition \<^verbatim>\<open>featureGroups[fraType]\<close> holds for the
  inherited function and the call of \<^verbatim>\<open>push\<close> raises: no layer is drawn, although the
  types that are present are the same, since the added feature belongs to no group.
\<close>

theorem draw_order_lost_on_inherited_key:
  "displayFRALayers [f_ifr] = Inr [(''Individual Forest Rights'', [f_ifr])]
   \<and> targetGroup (properties f_toString) = None
   \<and> displayFRALayers [f_ifr, f_toString] = Inl TypeError
   \<and> displayFRALayers [f_toString, f_ifr] = Inl TypeError"
  by (simp add: eval_simps sample_simps targetGroup_def)

lemma groupFeature_own:
  assumes "fiveKeys g" and "fraType (properties f) = Some t" and "t \<in> set layerOrder"
  shows "groupFeature g f = Inr (push g t f)"
  using assms(2,3) layerOrder_not_inherited[of t]
  by (simp add: groupFeature_eq[OF assms(1)] targetGroup_def inheritedKey_def)

lemma groupFeature_legacy:
  assumes "fiveKeys g" and "getProperty g (fraType (properties f)) = Absent"
  shows "groupFeature g f =
           Inr (if claim_type (properties f) = Some ''CFR''
                  then push g ''Community Forest Resource Rights'' f
                else if claim_type (properties f) = Some ''IFR''
                  then push g ''Individual Forest Rights'' f
                else if claim_type (properties f) = Some ''CR''
                  then push g ''Community Rights'' f
                else g)"
  using assms(2) by (simp add: groupFeature_def)

text \<open>
  C3, as the viewer resolves the type of a feature whose \<^verbatim>\<open>claim_type\<close> code and
  descriptive field disagree. The grouping loop of \<^verbatim>\<open>displayFRALayers\<close> takes the
  descriptive field whenever it names one of the five groups, whatever the code says, and
  consults \<^verbatim>\<open>claim_type\<close> only when the descriptive field names no group.
  \<^verbatim>\<open>getFeatureStyle\<close> and \<^verbatim>\<open>updateStatistics\<close> follow a fixed priority over both fields:
  community forest resource if either field says so, else individual rights if either
  says so, else community rights.
\<close>

theorem category_resolution_order:
  "(fiveKeys g \<and> fraType (properties f) = Some t \<and> t \<in> set layerOrder \<longrightarrow>
      groupFeature g f = Inr (push g t f))
   \<and> (fiveKeys g \<and> getProperty g (fraType (properties f)) = Absent \<longrightarrow>
        groupFeature g f =
          Inr (if claim_type (properties f) = Some ''CFR''
                 then push g ''Community Forest Resource Rights'' f
               else if claim_type (properties f) = Some ''IFR''
                 then push g ''Individual Forest Rights'' f
               else if claim_type (properties f) = Some ''CR''
                 then push g ''Community Rights'' f
               else g))
   \<and> (claim_type (properties f) = Some ''CFR'' \<longrightarrow> styleKeyOf (properties f) = Some ''CFR'')
   \<and> (claim_type (properties f) = Some ''IFR'' \<longrightarrow>
        styleKeyOf (properties f) =
          (if fraType (properties f) = Some ''Community Forest Resource Rights''
           then Some ''CFR'' else Some ''IFR''))
   \<and> (claim_type (properties f) = Some ''CR'' \<longrightarrow>
        styleKeyOf (properties f) =
          (if fraType (properties f) = Some ''Community Forest Resource Rights'' then Some ''CFR''
           else if fraType (properties f) = Some ''Individual Forest Rights'' then Some ''IFR''
           else Some ''CR''))
   \<and> (claim_type (properties f) = Some ''CFR'' \<longrightarrow>
        countType (properties f) c = c\<lparr>CFR := CFR c + 1\<rparr>)
   \<and> (claim_type (properties f) = Some ''IFR'' \<longrightarrow>
        countType (properties f) c =
          (if fraType (properties f) = Some ''Community Forest Resource Rights''
           then c\<lparr>CFR := CFR c + 1\<rparr> else c\<lparr>IFR := IFR c + 1\<rparr>))
   \<and> (claim_type (properties f) = Some ''CR'' \<longrightarrow>
        countType (properties f) c =
          (if fraType (properties f) = Some ''Community Forest Resource Rights''
             then c\<lparr>CFR := CFR c + 1\<rparr>
           else if fraType (properties f) = Some ''Individual Forest Rights''
             then c\<lparr>IFR := IFR c + 1\<rparr>
           else c\<lparr>CR := CR c + 1\<rparr>))"
proof -
  have own: "fiveKeys g \<and> fraType (properties f) = Some t \<and> t \<in> set layerOrder \<longrightarrow>
      groupFeature g f = Inr (push g t f)"
    using groupFeature_own[of g f t] by blast
  have legacy: "fiveKeys g \<and> getProperty g (fraType (properties f)) = Absent \<longrightarrow>
        groupFeature g f =
          Inr (if claim_type (properties f) = Some ''CFR''
                 then push g ''Community Forest Resource Rights'' f
               else if claim_type (properties f) = Some ''IFR''
                 then push g ''Individual Forest Rights'' f
               else if claim_type (properties f) = Some ''CR''
                 then push g ''Community Rights'' f
               else g)"
    using groupFeature_legacy[of g f] by blast
  have style: "(claim_type (properties f) = Some ''CFR'' \<longrightarrow> styleKeyOf (properties f) = Some ''CFR'')
   \<and> (claim_type (properties f) = Some ''IFR'' \<longrightarrow>
        styleKeyOf (properties f) =
          (if fraType (properties f) = Some ''Community Forest Resource Rights''
           then Some ''CFR'' else Some ''IFR''))
   \<and> (claim_type (properties f) = Some ''CR'' \<longrightarrow>
        styleKeyOf (properties f) =
          (if fraType (properties f) = Some ''Community Forest Resource Rights'' then Some ''CFR''
           else if fraType (properties f) = Some ''Individual Forest Rights'' then Some ''IFR''
           else Some ''CR''))"
    by (simp add: styleKeyOf_def Let_def)
  have count: "(claim_type (properties f) = Some ''CFR'' \<longrightarrow>
        countType (properties f) c = c\<lparr>CFR := CFR c + 1\<rparr>)
   \<and> (claim_type (properties f) = Some ''IFR'' \<longrightarrow>
        countType (properties f) c =
          (if fraType (properties f) = Some ''Community Forest Resource Rights''
           then c\<lparr>CFR := CFR c + 1\<rparr> else c\<lparr>IFR := IFR c + 1\<rparr>))
   \<and> (claim_type (properties f) = Some ''CR'' \<longrightarrow>
        countType (properties f) c =
          (if fraType (properties f) = Some ''Community Forest Resource Rights''
             then c\<lparr>CFR := CFR c + 1\<rparr>
           else if fraType (properties f) = Some ''Individual Forest Rights''
             then c\<lparr>IFR := IFR c + 1\<rparr>
           else c\<lparr>CR := CR c + 1\<rparr>))"
    by (simp add: countType_def Let_def)
  show ?thesis
    using own legacy style count by blast
qed

text \<open>A feature with the code IFR and the descriptive type of a community forest resource
  is grouped, styled and counted as a community forest resource.\<close>

theorem category_resolution_order_witness:
  "groupFeature featureGroups0 f_conflict =
     Inr (push featureGroups0 ''Community Forest Resource Rights'' f_conflict)
   \<and> styleKeyOf (properties f_conflict) = Some ''CFR''
   \<and> countType (properties f_conflict) (counts (stats0 exact)) =
       (counts (stats0 exact))\<lparr>CFR := 1\<rparr>"
proof -
  have a: "fiveKeys featureGroups0" by (simp add: fiveKeys_def)
  have b: "fraType (properties f_conflict) = Some ''Community Forest Resource Rights''"
    by (simp add: sample_simps fraType_def or_str_def)
  have c: "''Community Forest Resource Rights'' \<in> set layerOrder"
    by (simp add: layerOrder_def)
  have d: "claim_type (properties f_conflict) = Some ''IFR''"
    by (simp add: sample_simps)
  show ?thesis
    using category_resolution_order
            [of featureGroups0 f_conflict "''Community Forest Resource Rights''"
                "counts (stats0 exact)"]
          a b c d
    by (simp add: stats0_def)
qed

text \<open>C3 as stated fails on that feature: its code is IFR, and the layer, the style key
  and the counter are those of CFR.\<close>

theorem claim_type_precedence_counterexample:
  "claim_type (properties f_conflict) = Some ''IFR''
   \<and> displayFRALayers [f_conflict] = Inr [(''Community Forest Resource Rights'', [f_conflict])]
   \<and> styleKeyOf (properties f_conflict) = Some ''CFR''
   \<and> ifr_count (updateStatistics exact [f_conflict]) = 0
   \<and> cfr_count (updateStatistics exact [f_conflict]) = 1"
  by (simp add: eval_simps sample_simps styleKeyOf_def stats_simps)


lemma baseStyleOf_absent:
  "toKey k \<notin> {''CFR'', ''IFR'', ''CR'', ''Agriculture'', ''Water Body''} \<Longrightarrow>
   \<not> inheritedKey k \<Longrightarrow> baseStyleOf k = fallbackStyle"
  by (simp add: baseStyleOf_def getProperty_def colors_def inheritedKey_def)

lemma targetGroup_None:
  "claim_type p \<notin> {Some ''CFR'', Some ''IFR'', Some ''CR''} \<Longrightarrow>
   toKey (fraType p) \<notin> set layerOrder \<Longrightarrow> targetGroup p = None"
  by (simp add: targetGroup_def Let_def)

lemma styleKeyOf_unrecognised:
  "claim_type p \<notin> {Some ''CFR'', Some ''IFR'', Some ''CR''} \<Longrightarrow>
   toKey (fraType p) \<notin> set layerOrder \<Longrightarrow> styleKeyOf p = fraType p"
  by (auto simp: styleKeyOf_def Let_def layerOrder_def)

lemma displayFRALayers_skip:
  assumes "targetGroup (properties f) = None" and "\<not> inheritedKey (fraType (properties f))"
  shows "displayFRALayers (xs @ f # ys) = displayFRALayers (xs @ ys)"
proof -
  have "groupOfType t (xs @ f # ys) = groupOfType t (xs @ ys)" for t
    using assms(1) by (simp add: groupOfType_def)
  then show ?thesis
    using assms(2) by (simp add: displayFRALayers_eq)
qed

lemma displayFRALayers_member:
  assumes "displayFRALayers fs = Inr ls" and "(t, g) \<in> set ls" and "x \<in> set g"
  shows "targetGroup (properties x) = Some t \<and> \<not> inheritedKey (fraType (properties x)) \<and> x \<in> set fs"
proof -
  have n: "\<not> (\<exists>f\<in>set fs. inheritedKey (fraType (properties f)))"
    and ls: "ls = filter (\<lambda>(t, g). g \<noteq> []) (map (\<lambda>t. (t, groupOfType t fs)) layerOrder)"
    using assms(1) by (auto simp: displayFRALayers_eq split: if_splits)
  from assms(2) have "g = groupOfType t fs" unfolding ls by auto
  with assms(3) n show ?thesis by (auto simp: groupOfType_def)
qed

text \<open>
  C4, as the viewer treats a feature whose \<^verbatim>\<open>claim_type\<close> is none of the three codes and
  whose descriptive value is missing or names neither a group nor an inherited property.
  \<^verbatim>\<open>displayFRALayers\<close> puts it in no layer, and draws the layers of the other features as
  if it were not there; \<^verbatim>\<open>getFeatureStyle\<close> gives it the neutral colours and weight 2,
  unless its descriptive value is one of the colour keys CFR, IFR, CR.
\<close>

theorem unrecognised_feature_left_out:
  assumes "claim_type (properties f) \<notin> {Some ''CFR'', Some ''IFR'', Some ''CR''}"
      and "getProperty featureGroups0 (fraType (properties f)) = Absent"
  shows "displayFRALayers (xs @ f # ys) = displayFRALayers (xs @ ys)
         \<and> (\<forall>ls t g. displayFRALayers (xs @ f # ys) = Inr ls \<and> (t, g) \<in> set ls \<longrightarrow> f \<notin> set g)
         \<and> (toKey (fraType (properties f)) \<notin> {''CFR'', ''IFR'', ''CR''} \<longrightarrow>
              color (getFeatureStyle f) = Some ''#333333''
              \<and> fillColor (getFeatureStyle f) = Some ''#666666''
              \<and> fillOpacity (getFeatureStyle f) = Some (1/2)
              \<and> weight (getFeatureStyle f) = Some 2)"
proof -
  from assms(2) have k: "toKey (fraType (properties f)) \<notin> set layerOrder"
    and i: "\<not> inheritedKey (fraType (properties f))"
    by (simp_all add: absent_iff[OF fiveKeys_0])
  have tg: "targetGroup (properties f) = None"
    by (rule targetGroup_None[OF assms(1) k])
  have a: "displayFRALayers (xs @ f # ys) = displayFRALayers (xs @ ys)"
    by (rule displayFRALayers_skip[OF tg i])
  have b: "\<forall>ls t g. displayFRALayers (xs @ f # ys) = Inr ls \<and> (t, g) \<in> set ls \<longrightarrow> f \<notin> set g"
    using displayFRALayers_member[of "xs @ f # ys" _ _ _ f] tg by fastforce
  have sk: "styleKeyOf (properties f) = fraType (properties f)"
    by (rule styleKeyOf_unrecognised[OF assms(1) k])
  have c: "toKey (fraType (properties f)) \<notin> {''CFR'', ''IFR'', ''CR''} \<longrightarrow>
              color (getFeatureStyle f) = Some ''#333333''
              \<and> fillColor (getFeatureStyle f) = Some ''#666666''
              \<and> fillOpacity (getFeatureStyle f) = Some (1/2)
              \<and> weight (getFeatureStyle f) = Some 2"
  proof
    assume n: "toKey (fraType (properties f)) \<notin> {''CFR'', ''IFR'', ''CR''}"
    have "toKey (fraType (properties f)) \<notin> {''CFR'', ''IFR'', ''CR'', ''Agriculture'', ''Water Body''}"
      using n k by (simp add: layerOrder_def)
    then have base: "baseStyleOf (fraType (properties f)) = fallbackStyle"
      by (rule baseStyleOf_absent[OF _ i])
    have "fraType (properties f) \<noteq> Some ''CFR''"
      using n by auto
    then show "color (getFeatureStyle f) = Some ''#333333''
              \<and> fillColor (getFeatureStyle f) = Some ''#666666''
              \<and> fillOpacity (getFeatureStyle f) = Some (1/2)
              \<and> weight (getFeatureStyle f) = Some 2"
      by (simp add: getFeatureStyle_def sk base Let_def assign_def orElse_def fallbackStyle_def
            baseRule_def noStyle_def)
  qed
  show ?thesis using a b c by blast
qed

text \<open>A feature of type "Grazing Land" between two recognised ones.\<close>

theorem unrecognised_feature_left_out_witness:
  "displayFRALayers ([f_ifr] @ f_unknown # [f_cfr]) = displayFRALayers ([f_ifr] @ [f_cfr])
   \<and> color (getFeatureStyle f_unknown) = Some ''#333333''
   \<and> fillColor (getFeatureStyle f_unknown) = Some ''#666666''"
proof -
  have a: "claim_type (properties f_unknown) \<notin> {Some ''CFR'', Some ''IFR'', Some ''CR''}"
    by (simp add: sample_simps)
  have b: "getProperty featureGroups0 (fraType (properties f_unknown)) = Absent"
    by (simp add: eval_simps sample_simps)
  have c: "toKey (fraType (properties f_unknown)) \<notin> {''CFR'', ''IFR'', ''CR''}"
    by (simp add: sample_simps fraType_def or_str_def)
  show ?thesis
    using unrecognised_feature_left_out [OF a b, of "[f_ifr]" "[f_cfr]"] c by blast
qed

text \<open>C4 as stated fails: the feature of type "Grazing Land" is in no layer that is
  drawn.\<close>

theorem unknown_feature_dropped_counterexample:
  "displayFRALayers [f_ifr, f_unknown] = Inr [(''Individual Forest Rights'', [f_ifr])]"
  by (simp add: eval_simps sample_simps)

section \<open>The legacy and the descriptive schema\<close>

lemma falsy_key:
  "\<not> truthy_str a \<Longrightarrow> \<not> truthy_str b \<Longrightarrow>
   \<not> truthy_str (or_str a b) \<and> toKey (or_str a b) \<in> {''undefined'', []}"
  by (cases a; cases b) (auto simp: or_str_def)

lemma legacy_cfr_facts:
  assumes "claim_type p = Some ''CFR''"
      and "\<not> truthy_str (fra_type p)" and "\<not> truthy_str (feature_type p)"
  shows "targetGroup p = Some ''Community Forest Resource Rights''"
    and "\<not> inheritedKey (fraType p)"
    and "styleKeyOf p = Some ''CFR''"
    and "countType p c = c\<lparr>CFR := CFR c + 1\<rparr>"
    and "t \<noteq> [] \<Longrightarrow> typeMatches t p = (t = ''Community Forest Resource Rights'')"
proof -
  from falsy_key[OF assms(2,3)]
  have k: "toKey (fraType p) \<in> {''undefined'', []}" and ft: "\<not> truthy_str (fraType p)"
    by (simp_all add: fraType_def)
  from k show "targetGroup p = Some ''Community Forest Resource Rights''"
    using assms(1) by (auto simp: targetGroup_def Let_def layerOrder_def)
  from k show "\<not> inheritedKey (fraType p)"
    by (auto simp: inheritedKey_def objectPrototypeKeys_def)
  show "styleKeyOf p = Some ''CFR''"
    using assms(1) by (simp add: styleKeyOf_def)
  show "countType p c = c\<lparr>CFR := CFR c + 1\<rparr>"
    using assms(1) by (simp add: countType_def)
  show "typeMatches t p = (t = ''Community Forest Resource Rights'')" if "t \<noteq> []"
  proof -
    have "fraType p \<noteq> Some t"
      using ft that by (cases "fraType p") auto
    then show ?thesis
      using assms(1) by (auto simp: typeMatches_def Let_def)
  qed
qed

lemma descriptive_cfr_facts:
  assumes "fra_type p = Some ''Community Forest Resource Rights''" and "claim_type p = None"
  shows "targetGroup p = Some ''Community Forest Resource Rights''"
    and "\<not> inheritedKey (fraType p)"
    and "styleKeyOf p = Some ''CFR''"
    and "countType p c = c\<lparr>CFR := CFR c + 1\<rparr>"
    and "typeMatches t p = (t = ''Community Forest Resource Rights'')"
proof -
  have ft: "fraType p = Some ''Community Forest Resource Rights''"
    using assms(1) by (simp add: fraType_def or_str_def)
  show "targetGroup p = Some ''Community Forest Resource Rights''"
    by (simp add: targetGroup_def ft layerOrder_def)
  show "\<not> inheritedKey (fraType p)"
    by (simp add: ft inheritedKey_def objectPrototypeKeys_def)
  show "styleKeyOf p = Some ''CFR''"
    by (simp add: styleKeyOf_def ft)
  show "countType p c = c\<lparr>CFR := CFR c + 1\<rparr>"
    by (simp add: countType_def ft)
  show "typeMatches t p = (t = ''Community Forest Resource Rights'')"
    using assms(2) by (auto simp: typeMatches_def ft)
qed

lemma groupFeature_target:
  "fiveKeys g \<Longrightarrow> \<not> inheritedKey (fraType (properties f)) \<Longrightarrow>
   targetGroup (properties f) = Some t \<Longrightarrow> groupFeature g f = Inr (push g t f)"
  by (simp add: groupFeature_eq)

lemma getFeatureStyle_cong:
  "styleKeyOf (properties a) = styleKeyOf (properties b) \<Longrightarrow>
   status (properties a) = status (properties b) \<Longrightarrow> getFeatureStyle a = getFeatureStyle b"
  by (simp add: getFeatureStyle_def)

lemma keep_iff:
  "keep fl f =
     ((state_filter fl = [] \<or> state (properties f) = Some (state_filter fl))
      \<and> (district_filter fl = [] \<or> district (properties f) = Some (district_filter fl))
      \<and> (village_filter fl = [] \<or> village (properties f) = Some (village_filter fl))
      \<and> (fra_type_filter fl = [] \<or> typeMatches (fra_type_filter fl) (properties f))
      \<and> (status_filter fl = [] \<or> status (properties f) = Some (status_filter fl)))"
  unfolding keep_def Let_def by (simp only: if_bool_eq_conj) blast

lemma keep_cong:
  assumes "\<And>t. t \<noteq> [] \<Longrightarrow> typeMatches t (properties a) = typeMatches t (properties b)"
      and "state (properties a) = state (properties b)"
      and "district (properties a) = district (properties b)"
      and "village (properties a) = village (properties b)"
      and "status (properties a) = status (properties b)"
  shows "keep fl a = keep fl b"
proof (cases "fra_type_filter fl = []")
  case True
  then show ?thesis by (simp add: keep_iff assms(2-5))
next
  case False
  then show ?thesis by (simp add: keep_iff assms(2-5) assms(1)[OF False])
qed

text \<open>
  C9, for a legacy feature that has no descriptive field at all. A feature with
  \<^verbatim>\<open>claim_type\<close> CFR whose \<^verbatim>\<open>fra_type\<close> and \<^verbatim>\<open>feature_type\<close> are both missing or empty,
  and a feature with \<^verbatim>\<open>fra_type\<close> "Community Forest Resource Rights" and no
  \<^verbatim>\<open>claim_type\<close>, are pushed to the same group, get the same style key (and the same
  style when their status is the same), pass the same filters when their place and
  status are the same, and increment the same counter.
\<close>

theorem legacy_and_descriptive_cfr_agree:
  assumes "claim_type (properties a) = Some ''CFR''"
      and "\<not> truthy_str (fra_type (properties a))"
      and "\<not> truthy_str (feature_type (properties a))"
      and "fra_type (properties b) = Some ''Community Forest Resource Rights''"
      and "claim_type (properties b) = None"
  shows "(fiveKeys g \<longrightarrow>
            groupFeature g a = Inr (push g ''Community Forest Resource Rights'' a)
            \<and> groupFeature g b = Inr (push g ''Community Forest Resource Rights'' b))
         \<and> styleKeyOf (properties a) = Some ''CFR''
         \<and> styleKeyOf (properties b) = Some ''CFR''
         \<and> (status (properties a) = status (properties b) \<longrightarrow>
              getFeatureStyle a = getFeatureStyle b)
         \<and> (state (properties a) = state (properties b)
              \<and> district (properties a) = district (properties b)
              \<and> village (properties a) = village (properties b)
              \<and> status (properties a) = status (properties b) \<longrightarrow> keep fl a = keep fl b)
         \<and> countType (properties a) c = c\<lparr>CFR := CFR c + 1\<rparr>
         \<and> countType (properties b) c = c\<lparr>CFR := CFR c + 1\<rparr>"
proof -
  note A = legacy_cfr_facts[OF assms(1,2,3)]
  note B = descriptive_cfr_facts[OF assms(4,5)]
  have g: "fiveKeys g \<longrightarrow>
            groupFeature g a = Inr (push g ''Community Forest Resource Rights'' a)
            \<and> groupFeature g b = Inr (push g ''Community Forest Resource Rights'' b)"
    using groupFeature_target[OF _ A(2) A(1)] groupFeature_target[OF _ B(2) B(1)] by blast
  have st: "status (properties a) = status (properties b) \<longrightarrow>
              getFeatureStyle a = getFeatureStyle b"
    using getFeatureStyle_cong[of a b] A(3) B(3) by simp
  have tm: "typeMatches t (properties a) = typeMatches t (properties b)" if "t \<noteq> []" for t
    using A(5)[OF that] B(5)[of t] by simp
  have k: "state (properties a) = state (properties b)
              \<and> district (properties a) = district (properties b)
              \<and> village (properties a) = village (properties b)
              \<and> status (properties a) = status (properties b) \<longrightarrow> keep fl a = keep fl b"
    using keep_cong[of a b fl, OF tm] by blast
  show ?thesis
    using g st k A(3,4) B(3,4) by blast
qed

text \<open>The two sample features of a community forest resource, one of each schema.\<close>

theorem legacy_and_descriptive_cfr_agree_witness:
  "groupFeature featureGroups0 f_cfr =
     Inr (push featureGroups0 ''Community Forest Resource Rights'' f_cfr)
   \<and> groupFeature featureGroups0 f_cfr_descriptive =
     Inr (push featureGroups0 ''Community Forest Resource Rights'' f_cfr_descriptive)
   \<and> getFeatureStyle f_cfr = getFeatureStyle f_cfr_descriptive
   \<and> countType (properties f_cfr) (counts (stats0 exact)) =
       (counts (stats0 exact))\<lparr>CFR := 1\<rparr>
   \<and> countType (properties f_cfr_descriptive) (counts (stats0 exact)) =
       (counts (stats0 exact))\<lparr>CFR := 1\<rparr>"
proof -
  have h: "claim_type (properties f_cfr) = Some ''CFR''"
      "\<not> truthy_str (fra_type (properties f_cfr))"
      "\<not> truthy_str (feature_type (properties f_cfr))"
      "fra_type (properties f_cfr_descriptive) = Some ''Community Forest Resource Rights''"
      "claim_type (properties f_cfr_descriptive) = None"
    by (simp_all add: sample_simps)
  have s: "status (properties f_cfr) = status (properties f_cfr_descriptive)"
    by (simp add: sample_simps)
  have z: "CFR (counts (stats0 exact)) + 1 = 1" by (simp add: stats0_def)
  show ?thesis
    using legacy_and_descriptive_cfr_agree
            [OF h, of featureGroups0 noFilters "counts (stats0 exact)"]
          fiveKeys_0 s z
    by simp
qed

text \<open>C9 as stated fails when the legacy feature has no \<^verbatim>\<open>fra_type\<close> but a
  \<^verbatim>\<open>feature_type\<close>: it is drawn in the layer that \<^verbatim>\<open>feature_type\<close> names.\<close>

theorem legacy_with_feature_type_counterexample:
  "claim_type (properties f_cfr_agri) = Some ''CFR''
   \<and> fra_type (properties f_cfr_agri) = None
   \<and> displayFRALayers [f_cfr_agri] = Inr [(''Agriculture'', [f_cfr_agri])]
   \<and> fra_type (properties f_cfr_descriptive) = Some ''Community Forest Resource Rights''
   \<and> claim_type (properties f_cfr_descriptive) = None
   \<and> displayFRALayers [f_cfr_descriptive] =
       Inr [(''Community Forest Resource Rights'', [f_cfr_descriptive])]"
  by (simp add: eval_simps sample_simps)

section \<open>Properties of \<^verbatim>\<open>getFeatureStyle\<close>\<close>


lemma color_baseStyleOf: "color (baseStyleOf k) \<noteq> Some ''#ffff00''"
proof (cases "getProperty colors k")
  case (Own b)
  then have "map_of colors (toKey k) = Some b"
    by (simp add: getProperty_def split: option.splits if_splits)
  then have "(toKey k, b) \<in> set colors"
    by (rule map_of_SomeD)
  then have "color b \<noteq> Some ''#ffff00''"
    by (auto simp: colors_def baseRule_def noStyle_def)
  with Own show ?thesis by (simp add: baseStyleOf_def)
next
  case Inherited
  then show ?thesis by (simp add: baseStyleOf_def noStyle_def)
next
  case Absent
  then show ?thesis by (simp add: baseStyleOf_def fallbackStyle_def baseRule_def noStyle_def)
qed

lemma color_getFeatureStyle: "color (getFeatureStyle f) = color (baseStyleOf (styleKeyOf (properties f)))"
  by (simp add: getFeatureStyle_def Let_def assign_def orElse_def noStyle_def)

lemma normal_not_highlighted: "color (getFeatureStyle f) \<noteq> Some ''#ffff00''"
  by (simp add: color_getFeatureStyle color_baseStyleOf)

lemma styleKey_drawn:
  assumes "targetGroup p = Some t" and "\<not> inheritedKey (fraType p)"
  shows "styleKeyOf p \<in> {Some ''CFR'', Some ''IFR'', Some ''CR'', Some ''Agriculture'', Some ''Water Body''}"
proof (cases "toKey (fraType p) \<in> set layerOrder")
  case True
  then have "fraType p \<in> Some ` set layerOrder"
    by (cases "fraType p") (auto simp: layerOrder_def)
  then show ?thesis
    by (auto simp: styleKeyOf_def Let_def layerOrder_def)
next
  case False
  then have "claim_type p \<in> {Some ''CFR'', Some ''IFR'', Some ''CR''}"
    using assms(1) by (auto simp: targetGroup_def Let_def split: if_splits)
  then show ?thesis
    by (auto simp: styleKeyOf_def Let_def)
qed

lemma baseStyleOf_known:
  assumes "k \<in> {Some ''CFR'', Some ''IFR'', Some ''CR'', Some ''Agriculture'', Some ''Water Body''}"
  shows "\<exists>c fc fo. baseStyleOf k = baseRule c fc fo"
  using assms by (auto simp: baseStyleOf_def getProperty_def colors_def)

lemma complete_overlay:
  "complete (assign (baseRule c fc fo)
     (noStyle\<lparr> weight := Some w, opacity := Some op, dashArray := Some d \<rparr>))"
  by (simp add: complete_def assign_def orElse_def noStyle_def baseRule_def)

lemma complete_known:
  assumes "styleKeyOf (properties f) \<in>
             {Some ''CFR'', Some ''IFR'', Some ''CR'', Some ''Agriculture'', Some ''Water Body''}"
  shows "complete (getFeatureStyle f)"
proof -
  from baseStyleOf_known[OF assms] obtain c fc fo
    where b: "baseStyleOf (styleKeyOf (properties f)) = baseRule c fc fo" by blast
  show ?thesis
    unfolding getFeatureStyle_def Let_def b by (rule complete_overlay)
qed

lemma complete_drawn:
  "targetGroup (properties f) = Some t \<Longrightarrow> \<not> inheritedKey (fraType (properties f)) \<Longrightarrow>
   complete (getFeatureStyle f)"
  by (rule complete_known[OF styleKey_drawn])







text \<open>
  Called directly with a type that names an inherited property, which no drawn feature
  has, the read of \<^verbatim>\<open>this.colors[styleKey]\<close> yields the inherited function, the neutral
  fallback is not taken, and the style has no stroke colour, fill colour or fill opacity.
\<close>

lemma getFeatureStyle_direct_inherited_key:
  "getProperty colors (styleKeyOf (properties f_toString)) = Inherited
   \<and> getFeatureStyle f_toString =
       \<lparr> color = None, fillColor = None, fillOpacity = None,
         weight = Some 2, opacity = Some (8/10), dashArray = Some None \<rparr>"
  by (simp add: getFeatureStyle_def styleKeyOf_def baseStyleOf_def getProperty_def colors_def
        objectPrototypeKeys_def fraType_def or_str_def Let_def assign_def orElse_def noStyle_def
        sample_simps)

section \<open>Properties of \<^verbatim>\<open>applyFilters\<close>\<close>

lemma typeMatches_iff:
  "typeMatches t p =
     (fraType p = Some t
      \<or> (t = ''Community Forest Resource Rights'' \<and> claim_type p = Some ''CFR'')
      \<or> (t = ''Individual Forest Rights'' \<and> claim_type p = Some ''IFR'')
      \<or> (t = ''Community Rights'' \<and> claim_type p = Some ''CR''))"
  unfolding typeMatches_def Let_def by auto

text \<open>
  C2, as the viewer filters. The filtered data are the features of the full data set, in
  their order, for which every dropdown that is not empty matches: state, district,
  village and status by string equality with the property; the type when the descriptive
  field equals the chosen type or when the chosen type is one of the three claim types
  and \<^verbatim>\<open>claim_type\<close> is its code. There is no filter on the area. The full data set is
  not changed.
\<close>

theorem applyFilters_keeps_matches:
  "filteredData (applyFilters fl v) =
     filter (\<lambda>f.
        (state_filter fl = [] \<or> state (properties f) = Some (state_filter fl))
        \<and> (district_filter fl = [] \<or> district (properties f) = Some (district_filter fl))
        \<and> (village_filter fl = [] \<or> village (properties f) = Some (village_filter fl))
        \<and> (fra_type_filter fl = []
             \<or> fraType (properties f) = Some (fra_type_filter fl)
             \<or> (fra_type_filter fl = ''Community Forest Resource Rights''
                  \<and> claim_type (properties f) = Some ''CFR'')
             \<or> (fra_type_filter fl = ''Individual Forest Rights''
                  \<and> claim_type (properties f) = Some ''IFR'')
             \<or> (fra_type_filter fl = ''Community Rights''
                  \<and> claim_type (properties f) = Some ''CR''))
        \<and> (status_filter fl = [] \<or> status (properties f) = Some (status_filter fl)))
       (fraData v)
   \<and> set (filteredData (applyFilters fl v)) \<subseteq> set (fraData v)
   \<and> fraData (applyFilters fl v) = fraData v"
proof -
  have "filteredData (applyFilters fl v) = filter (\<lambda>f. keep fl f) (fraData v)"
    by (simp add: applyFilters_def)
  then show ?thesis
    unfolding keep_iff typeMatches_iff by (simp add: applyFilters_def)
qed

text \<open>Of the three sample features, the filter on individual forest rights keeps the
  first, and the filter on Odisha and pending keeps the second.\<close>

theorem applyFilters_keeps_matches_witness:
  "filteredData (applyFilters (noFilters\<lparr>fra_type_filter := ''Individual Forest Rights''\<rparr>)
      (loaded [f_ifr, f_cfr, f_water])) = [f_ifr]
   \<and> filteredData (applyFilters (noFilters\<lparr>state_filter := ''Odisha'', status_filter := ''Pending''\<rparr>)
      (loaded [f_ifr, f_cfr, f_water])) = [f_cfr]"
  using applyFilters_keeps_matches
          [of "noFilters\<lparr>fra_type_filter := ''Individual Forest Rights''\<rparr>"
              "loaded [f_ifr, f_cfr, f_water]"]
        applyFilters_keeps_matches
          [of "noFilters\<lparr>state_filter := ''Odisha'', status_filter := ''Pending''\<rparr>"
              "loaded [f_ifr, f_cfr, f_water]"]
  by (simp add: noFilters_def loaded_def sample_simps fraType_def or_str_def)

text \<open>C2 as stated fails: the type filter is no string equality with one category of
  the feature, since the same feature is kept under two different type filters.\<close>

theorem applyFilters_two_types_counterexample:
  "filteredData (applyFilters (noFilters\<lparr>fra_type_filter := ''Individual Forest Rights''\<rparr>)
      (loaded [f_conflict])) = [f_conflict]
   \<and> filteredData
        (applyFilters (noFilters\<lparr>fra_type_filter := ''Community Forest Resource Rights''\<rparr>)
          (loaded [f_conflict])) = [f_conflict]"
  by (simp add: applyFilters_def keep_def typeMatches_def noFilters_def loaded_def sample_simps
        fraType_def or_str_def)

section \<open>Properties of the dependent dropdowns\<close>

lemma set_foldl_Set_add: "set (foldl Set_add acc xs) = set acc \<union> set xs"
  by (induction xs arbitrary: acc) (auto simp: Set_add_def)

lemma distinct_foldl_Set_add: "distinct acc \<Longrightarrow> distinct (foldl Set_add acc xs)"
  by (induction xs arbitrary: acc) (auto simp: Set_add_def)

lemma set_new_Set: "set (new_Set xs) = set xs"
  by (simp add: new_Set_def set_foldl_Set_add)

lemma distinct_new_Set: "distinct (new_Set xs)"
  by (simp add: new_Set_def distinct_foldl_Set_add)

lemma set_definedOnes: "set (definedOnes ys) = {d. Some d \<in> set ys}"
  by (induction ys) (auto simp: definedOnes_def split: option.splits)

lemma distinct_definedOnes: "distinct ys \<Longrightarrow> distinct (definedOnes ys)"
proof (induction ys)
  case Nil
  show ?case by (simp add: definedOnes_def)
next
  case (Cons y ys)
  have c: "definedOnes (y # ys) = (case y of None \<Rightarrow> [] | Some s \<Rightarrow> [s]) @ definedOnes ys"
    by (simp add: definedOnes_def)
  from Cons show ?case
    unfolding c by (cases y) (auto simp: set_definedOnes)
qed

lemma filter_None_distinct:
  "distinct ys \<Longrightarrow> filter (\<lambda>x. x = None) ys = (if None \<in> set ys then [None] else [])"
proof (induction ys)
  case Nil
  show ?case by simp
next
  case (Cons y ys)
  then show ?case
    by (cases y) (auto simp: filter_empty_conv)
qed

lemma js_sort_distinct:
  assumes "distinct ys"
  shows "js_sort ys =
           map Some (sorted_list_of_set {d. Some d \<in> set ys})
           @ (if None \<in> set ys then [None] else [])"
proof -
  have "sort (definedOnes ys) = sorted_list_of_set (set (definedOnes ys))"
    using distinct_definedOnes[OF assms]
    by (simp add: sorted_list_of_set_sort_remdups distinct_remdups_id)
  then show ?thesis
    by (simp add: js_sort_def set_definedOnes filter_None_distinct[OF assms])
qed

lemma js_sort_new_Set:
  "js_sort (new_Set xs) =
     map Some (sorted_list_of_set {d. Some d \<in> set xs})
     @ (if None \<in> set xs then [None] else [])"
  by (simp add: js_sort_distinct[OF distinct_new_Set] set_new_Set)

text \<open>
  C5, as the viewer fills the dependent dropdowns. The entries are computed from the full
  data set and do not depend on the filtered data. For a state that is not empty they
  are the distinct districts of the features of that state in ascending order, a missing
  district last; for the empty state there is no entry besides "All Districts". The
  villages follow the same pattern for a state and a district.
\<close>

theorem district_options_from_full_dataset:
  "updateDistrictFilter s (v\<lparr>filteredData := X\<rparr>) = updateDistrictFilter s v
   \<and> updateDistrictFilter [] v = []
   \<and> (s \<noteq> [] \<longrightarrow>
        updateDistrictFilter s v =
          map Some (sorted_list_of_set
            {d. \<exists>f\<in>set (fraData v). state (properties f) = Some s
                                      \<and> district (properties f) = Some d})
          @ (if \<exists>f\<in>set (fraData v). state (properties f) = Some s
                                      \<and> district (properties f) = None
             then [None] else []))
   \<and> updateVillageFilter s d (v\<lparr>filteredData := X\<rparr>) = updateVillageFilter s d v
   \<and> updateVillageFilter [] d v = [] \<and> updateVillageFilter s [] v = []
   \<and> (s \<noteq> [] \<and> d \<noteq> [] \<longrightarrow>
        updateVillageFilter s d v =
          map Some (sorted_list_of_set
            {w. \<exists>f\<in>set (fraData v). state (properties f) = Some s
                                      \<and> district (properties f) = Some d
                                      \<and> village (properties f) = Some w})
          @ (if \<exists>f\<in>set (fraData v). state (properties f) = Some s
                                      \<and> district (properties f) = Some d
                                      \<and> village (properties f) = None
             then [None] else []))"
proof -
  have img: "{x. Some x \<in> g ` {f \<in> A. P f}} = {x. \<exists>f\<in>A. P f \<and> g f = Some x}"
    for g :: "feature \<Rightarrow> string option" and A P
    by force
  have non: "(None \<in> g ` {f \<in> A. P f}) = (\<exists>f\<in>A. P f \<and> g f = None)"
    for g :: "feature \<Rightarrow> string option" and A P
    by force
  have d1: "s \<noteq> [] \<longrightarrow>
        updateDistrictFilter s v =
          map Some (sorted_list_of_set
            {d. \<exists>f\<in>set (fraData v). state (properties f) = Some s
                                      \<and> district (properties f) = Some d})
          @ (if \<exists>f\<in>set (fraData v). state (properties f) = Some s
                                      \<and> district (properties f) = None
             then [None] else [])"
    by (simp add: updateDistrictFilter_def js_sort_new_Set img non)
  have v1: "s \<noteq> [] \<and> d \<noteq> [] \<longrightarrow>
        updateVillageFilter s d v =
          map Some (sorted_list_of_set
            {w. \<exists>f\<in>set (fraData v). state (properties f) = Some s
                                      \<and> district (properties f) = Some d
                                      \<and> village (properties f) = Some w})
          @ (if \<exists>f\<in>set (fraData v). state (properties f) = Some s
                                      \<and> district (properties f) = Some d
                                      \<and> village (properties f) = None
             then [None] else [])"
    by (simp add: updateVillageFilter_def js_sort_new_Set img non conj_assoc)
  have rest: "updateDistrictFilter s (v\<lparr>filteredData := X\<rparr>) = updateDistrictFilter s v
   \<and> updateDistrictFilter [] v = []
   \<and> updateVillageFilter s d (v\<lparr>filteredData := X\<rparr>) = updateVillageFilter s d v
   \<and> updateVillageFilter [] d v = [] \<and> updateVillageFilter s [] v = []"
    by (simp add: updateDistrictFilter_def updateVillageFilter_def)
  show ?thesis using d1 v1 rest by blast
qed

text \<open>The districts of Odisha and the villages of Keonjhar in the sample data, whatever
  the filtered data are.\<close>

theorem district_options_from_full_dataset_witness:
  "''Odisha'' \<noteq> []
   \<and> updateDistrictFilter ''Odisha''
        ((loaded [f_ifr, f_cfr, f_water, f_conflict])\<lparr>filteredData := [f_cfr]\<rparr>) =
       [Some ''Keonjhar'', Some ''Mayurbhanj'']
   \<and> updateVillageFilter ''Odisha'' ''Keonjhar''
        ((loaded [f_ifr, f_cfr, f_water, f_conflict])\<lparr>filteredData := [f_ifr]\<rparr>) =
       [Some ''Anandapur'']"
proof -
  have d: "updateDistrictFilter ''Odisha'' (loaded [f_ifr, f_cfr, f_water, f_conflict]) =
      [Some ''Keonjhar'', Some ''Mayurbhanj'']"
    by (simp add: updateDistrictFilter_def loaded_def sample_simps new_Set_def Set_add_def
          js_sort_def definedOnes_def)
  have w: "updateVillageFilter ''Odisha'' ''Keonjhar'' (loaded [f_ifr, f_cfr, f_water, f_conflict]) =
      [Some ''Anandapur'']"
    by (simp add: updateVillageFilter_def loaded_def sample_simps new_Set_def Set_add_def
          js_sort_def definedOnes_def)
  show ?thesis
    using district_options_from_full_dataset
            [where s = "''Odisha''" and v = "loaded [f_ifr, f_cfr, f_water, f_conflict]"
               and X = "[f_cfr]" and d = "''Keonjhar''"]
          district_options_from_full_dataset
            [where s = "''Odisha''" and v = "loaded [f_ifr, f_cfr, f_water, f_conflict]"
               and X = "[f_ifr]" and d = "''Keonjhar''"]
          d w
    by simp
qed

text \<open>C5 as stated fails: with the state cleared the list of districts is empty, though
  the data set has districts.\<close>

theorem empty_state_lists_no_district_counterexample:
  "updateDistrictFilter [] (loaded [f_ifr, f_cfr]) = []
   \<and> district (properties f_ifr) = Some ''Mayurbhanj''
   \<and> district (properties f_cfr) = Some ''Keonjhar''"
  by (simp add: updateDistrictFilter_def sample_simps)

section \<open>Properties of the highlight\<close>

lemma assign_complete: "complete b \<Longrightarrow> assign a b = b"
  by (auto simp: complete_def assign_def orElse_def)

lemma color_assign_highlight: "color (assign a highlightStyle) = Some ''#ffff00''"
  by (simp add: assign_def orElse_def highlightStyle_def noStyle_def)

lemma color_assign_hover: "color (assign a hoverStyle) = color a"
  by (simp add: assign_def orElse_def hoverStyle_def noStyle_def)

lemma pathsOf_features:
  "p \<in> set (pathsOf ls) \<Longrightarrow> \<exists>t g f. (t, g) \<in> set ls \<and> f \<in> set g \<and> p = newPath f"
  by (auto simp: pathsOf_def)

lemma steady_drawn:
  assumes "displayFRALayers fs = Inr ls"
  shows "steady \<lparr> currentFeature = None, paths = pathsOf ls \<rparr>"
proof -
  have c: "complete (getFeatureStyle (feature p)) \<and> \<not> highlighted p" if "p \<in> set (pathsOf ls)" for p
  proof -
    from pathsOf_features[OF that] obtain t g f
      where m: "(t, g) \<in> set ls" "f \<in> set g" and p: "p = newPath f" by blast
    from displayFRALayers_member[OF assms m]
    have "complete (getFeatureStyle f)" by (auto intro: complete_drawn)
    then show ?thesis
      by (simp add: p newPath_def highlighted_def highlightStyle_def noStyle_def normal_not_highlighted)
  qed
  show ?thesis
    unfolding steady_def using c by (auto simp: in_set_conv_nth)
qed

lemma length_setStyle: "length (setStyle i st ps) = length ps"
  by (simp add: setStyle_def)

lemma nth_setStyle:
  "j < length ps \<Longrightarrow>
   setStyle i st ps ! j = (if j = i then (ps ! i)\<lparr> options := assign (options (ps ! i)) st \<rparr> else ps ! j)"
  by (simp add: setStyle_def nth_list_update)

lemma feature_setStyle: "j < length ps \<Longrightarrow> feature (setStyle i st ps ! j) = feature (ps ! j)"
  by (simp add: nth_setStyle)

lemma length_restore: "length (restore i ps) = length ps"
  by (simp add: restore_def length_setStyle)

lemma feature_restore: "j < length ps \<Longrightarrow> feature (restore i ps ! j) = feature (ps ! j)"
  by (simp add: restore_def feature_setStyle)

lemma nth_restore:
  "j < length ps \<Longrightarrow> complete (getFeatureStyle (feature (ps ! i))) \<Longrightarrow>
   restore i ps ! j = (if j = i then (ps ! i)\<lparr> options := getFeatureStyle (feature (ps ! i)) \<rparr> else ps ! j)"
  by (simp add: restore_def nth_setStyle assign_complete)

lemma highlighted_restored:
  "j < length ps \<Longrightarrow> complete (getFeatureStyle (feature (ps ! i))) \<Longrightarrow>
   highlighted (restore i ps ! j) = (j \<noteq> i \<and> highlighted (ps ! j))"
  by (simp add: nth_restore highlighted_def highlightStyle_def noStyle_def normal_not_highlighted)

lemma highlighted_setStyle_highlight:
  "j < length ps \<Longrightarrow>
   highlighted (setStyle i highlightStyle ps ! j) = (j = i \<or> highlighted (ps ! j))"
  by (simp add: nth_setStyle highlighted_def color_assign_highlight)
     (simp add: highlightStyle_def noStyle_def)

lemma highlighted_setStyle_hover:
  "j < length ps \<Longrightarrow> highlighted (setStyle i hoverStyle ps ! j) = highlighted (ps ! j)"
  by (simp add: nth_setStyle highlighted_def color_assign_hover)


lemma steady_cur: "steady s \<Longrightarrow> currentFeature s = Some c \<Longrightarrow> c < length (paths s)"
  unfolding steady_def by blast

lemma steady_hl:
  "steady s \<Longrightarrow> i < length (paths s) \<Longrightarrow> highlighted (paths s ! i) \<Longrightarrow> currentFeature s = Some i"
  unfolding steady_def by blast

lemma steady_cp:
  "steady s \<Longrightarrow> i < length (paths s) \<Longrightarrow> complete (getFeatureStyle (feature (paths s ! i)))"
  unfolding steady_def by blast

lemma steadyI:
  assumes "\<And>c. currentFeature s = Some c \<Longrightarrow> c < length (paths s)"
      and "\<And>i. i < length (paths s) \<Longrightarrow> highlighted (paths s ! i) \<Longrightarrow> currentFeature s = Some i"
      and "\<And>i. i < length (paths s) \<Longrightarrow> complete (getFeatureStyle (feature (paths s ! i)))"
  shows "steady s"
  unfolding steady_def using assms by blast

lemma steady_highlightFeature:
  assumes "steady s" and "a < length (paths s)"
  shows "steady (highlightFeature a s)"
    and "length (paths (highlightFeature a s)) = length (paths s)"
    and "currentFeature (highlightFeature a s) = Some a"
    and "\<And>j. j < length (paths s) \<Longrightarrow> highlighted (paths (highlightFeature a s) ! j) = (j = a)"
    and "\<And>j. j < length (paths s) \<Longrightarrow>
           feature (paths (highlightFeature a s) ! j) = feature (paths s ! j)"
    and "\<And>b. currentFeature s = Some b \<Longrightarrow> b \<noteq> a \<Longrightarrow>
           options (paths (highlightFeature a s) ! b) = getFeatureStyle (feature (paths s ! b))"
proof -
  define ps where
    "ps = (case currentFeature s of None \<Rightarrow> paths s | Some c \<Rightarrow> restore c (paths s))"
  have hf: "highlightFeature a s = \<lparr> currentFeature = Some a, paths = setStyle a highlightStyle ps \<rparr>"
    by (simp add: highlightFeature_def ps_def)
  note cur = steady_cur[OF assms(1)] and hl = steady_hl[OF assms(1)]
    and cp = steady_cp[OF assms(1)]
  have len: "length ps = length (paths s)"
    by (simp add: ps_def length_restore split: option.splits)
  have feat: "feature (ps ! j) = feature (paths s ! j)" if "j < length (paths s)" for j
    using that by (simp add: ps_def feature_restore split: option.splits)
  have none: "\<not> highlighted (ps ! j)" if j: "j < length (paths s)" for j
  proof (cases "currentFeature s")
    case None
    then show ?thesis using hl[OF j] by (auto simp: ps_def)
  next
    case (Some c)
    then show ?thesis
      using hl[OF j] cp[OF cur[OF Some]] j
      by (auto simp: ps_def highlighted_restored)
  qed
  show "length (paths (highlightFeature a s)) = length (paths s)"
    by (simp add: hf length_setStyle len)
  show "currentFeature (highlightFeature a s) = Some a"
    by (simp add: hf)
  show h: "highlighted (paths (highlightFeature a s) ! j) = (j = a)" if "j < length (paths s)" for j
    using that none[OF that] by (simp add: hf highlighted_setStyle_highlight len)
  show f: "feature (paths (highlightFeature a s) ! j) = feature (paths s ! j)"
    if "j < length (paths s)" for j
    using that by (simp add: hf feature_setStyle len feat)
  show "options (paths (highlightFeature a s) ! b) = getFeatureStyle (feature (paths s ! b))"
    if "currentFeature s = Some b" "b \<noteq> a" for b
    using that cur[OF that(1)] cp[OF cur[OF that(1)]]
    by (simp add: hf nth_setStyle length_restore ps_def nth_restore)
  have l: "length (paths (highlightFeature a s)) = length (paths s)"
    by (simp add: hf length_setStyle len)
  show "steady (highlightFeature a s)"
  proof (rule steadyI)
    fix c assume "currentFeature (highlightFeature a s) = Some c"
    then have "c = a" by (simp add: hf)
    then show "c < length (paths (highlightFeature a s))"
      using assms(2) by (simp only: l)
  next
    fix i assume "i < length (paths (highlightFeature a s))"
      and "highlighted (paths (highlightFeature a s) ! i)"
    then show "currentFeature (highlightFeature a s) = Some i"
      using h[of i] by (simp add: l) (simp add: hf)
  next
    fix i assume "i < length (paths (highlightFeature a s))"
    then show "complete (getFeatureStyle (feature (paths (highlightFeature a s) ! i)))"
      using f[of i] cp[of i] by (simp add: l)
  qed
qed

lemma steady_resetView:
  assumes "steady s"
  shows "steady (resetView s)"
    and "currentFeature (resetView s) = None"
    and "\<And>j. j < length (paths (resetView s)) \<Longrightarrow> \<not> highlighted (paths (resetView s) ! j)"
proof -
  note cur = steady_cur[OF assms(1)] and hl = steady_hl[OF assms(1)]
    and cp = steady_cp[OF assms(1)]
  show c: "currentFeature (resetView s) = None"
    by (simp add: resetView_def split: option.splits)
  show n: "\<not> highlighted (paths (resetView s) ! j)" if "j < length (paths (resetView s))" for j
  proof (cases "currentFeature s")
    case None
    then show ?thesis using that hl[of j] by (auto simp: resetView_def)
  next
    case (Some c)
    then show ?thesis
      using that hl[of j] cp[OF cur[OF Some]]
      by (auto simp: resetView_def length_restore highlighted_restored)
  qed
  have k: "complete (getFeatureStyle (feature (paths (resetView s) ! j)))"
    if "j < length (paths (resetView s))" for j
    using that cp[of j]
    by (cases "currentFeature s") (simp_all add: resetView_def length_restore feature_restore)
  show "steady (resetView s)"
  proof (rule steadyI)
    fix c' assume "currentFeature (resetView s) = Some c'"
    then show "c' < length (paths (resetView s))" by (simp add: c)
  next
    fix i assume "i < length (paths (resetView s))" and "highlighted (paths (resetView s) ! i)"
    then show "currentFeature (resetView s) = Some i" using n[of i] by blast
  next
    fix i assume "i < length (paths (resetView s))"
    then show "complete (getFeatureStyle (feature (paths (resetView s) ! i)))" by (rule k)
  qed
qed

lemma steady_mouseover:
  assumes "steady s"
  shows "steady (mouseover i s)"
proof (rule steadyI)
  fix c assume "currentFeature (mouseover i s) = Some c"
  then show "c < length (paths (mouseover i s))"
    using steady_cur[OF assms, of c] by (simp add: mouseover_def length_setStyle)
next
  fix j assume "j < length (paths (mouseover i s))" and "highlighted (paths (mouseover i s) ! j)"
  then show "currentFeature (mouseover i s) = Some j"
    using steady_hl[OF assms, of j]
    by (simp add: mouseover_def length_setStyle highlighted_setStyle_hover)
next
  fix j assume "j < length (paths (mouseover i s))"
  then show "complete (getFeatureStyle (feature (paths (mouseover i s) ! j)))"
    using steady_cp[OF assms, of j] by (simp add: mouseover_def length_setStyle feature_setStyle)
qed

lemma steady_mouseout:
  assumes "steady s" and "i < length (paths s)"
  shows "steady (mouseout i s)"
proof (rule steadyI)
  fix c assume "currentFeature (mouseout i s) = Some c"
  then show "c < length (paths (mouseout i s))"
    using steady_cur[OF assms(1), of c] by (simp add: mouseout_def length_restore)
next
  fix j assume "j < length (paths (mouseout i s))" and "highlighted (paths (mouseout i s) ! j)"
  then show "currentFeature (mouseout i s) = Some j"
    using steady_hl[OF assms(1), of j] steady_cp[OF assms]
    by (simp add: mouseout_def length_restore highlighted_restored)
next
  fix j assume "j < length (paths (mouseout i s))"
  then show "complete (getFeatureStyle (feature (paths (mouseout i s) ! j)))"
    using steady_cp[OF assms(1), of j] by (simp add: mouseout_def length_restore feature_restore)
qed

lemma reachable_steady: "reachable s \<Longrightarrow> steady s"
proof (induction rule: reachable.induct)
  case (drawn features ls)
  then show ?case by (rule steady_drawn)
next
  case (click s i)
  then show ?case by (simp add: steady_highlightFeature(1))
next
  case (reset s)
  then show ?case by (simp add: steady_resetView(1))
next
  case (enter s i)
  then show ?case by (simp add: steady_mouseover)
next
  case (leave s i)
  then show ?case by (simp add: steady_mouseout)
qed

text \<open>
  C7. In every state the viewer reaches after drawing the layers, at most one path shows
  the highlight. A click on path \<open>a\<close> makes \<open>a\<close> the current feature and the only
  highlighted path; the path \<open>b\<close> that was current before has exactly the style that
  \<^verbatim>\<open>getFeatureStyle\<close> gives its feature. \<^verbatim>\<open>resetView\<close> leaves no current feature and no
  highlighted path.
\<close>

theorem one_highlighted_feature:
  assumes "reachable s"
  shows "(\<forall>i j. i < length (paths s) \<and> j < length (paths s)
             \<and> highlighted (paths s ! i) \<and> highlighted (paths s ! j) \<longrightarrow> i = j)
         \<and> (\<forall>a. a < length (paths s) \<longrightarrow>
               currentFeature (highlightFeature a s) = Some a
               \<and> length (paths (highlightFeature a s)) = length (paths s)
               \<and> (\<forall>j. j < length (paths s) \<longrightarrow>
                     highlighted (paths (highlightFeature a s) ! j) = (j = a))
               \<and> (\<forall>b. currentFeature s = Some b \<and> b \<noteq> a \<longrightarrow>
                     options (paths (highlightFeature a s) ! b) =
                       getFeatureStyle (feature (paths s ! b))))
         \<and> currentFeature (resetView s) = None
         \<and> (\<forall>j. j < length (paths (resetView s)) \<longrightarrow>
               \<not> highlighted (paths (resetView s) ! j))"
proof -
  have st: "steady s" by (rule reachable_steady[OF assms])
  have one: "\<forall>i j. i < length (paths s) \<and> j < length (paths s)
             \<and> highlighted (paths s ! i) \<and> highlighted (paths s ! j) \<longrightarrow> i = j"
    using steady_hl[OF st] by (metis option.inject)
  have sel: "\<forall>a. a < length (paths s) \<longrightarrow>
               currentFeature (highlightFeature a s) = Some a
               \<and> length (paths (highlightFeature a s)) = length (paths s)
               \<and> (\<forall>j. j < length (paths s) \<longrightarrow>
                     highlighted (paths (highlightFeature a s) ! j) = (j = a))
               \<and> (\<forall>b. currentFeature s = Some b \<and> b \<noteq> a \<longrightarrow>
                     options (paths (highlightFeature a s) ! b) =
                       getFeatureStyle (feature (paths s ! b)))"
    using steady_highlightFeature(2,3,4,6)[OF st] by simp
  have clr: "currentFeature (resetView s) = None
         \<and> (\<forall>j. j < length (paths (resetView s)) \<longrightarrow>
               \<not> highlighted (paths (resetView s) ! j))"
    using steady_resetView(2,3)[OF st] by simp
  show ?thesis using one sel clr by blast
qed

lemma reachable_sel0: "reachable sel0"
proof -
  have "displayFRALayers [f_ifr, f_cfr] =
      Inr [(''Community Forest Resource Rights'', [f_cfr]), (''Individual Forest Rights'', [f_ifr])]"
    by (simp add: eval_simps sample_simps)
  from reachable.drawn[OF this] show ?thesis
    by (simp add: sel0_def pathsOf_def)
qed

text \<open>Two paths: after a click on the first and a click on the second, only the second
  is highlighted and the first has its normal style; the reset clears the highlight.\<close>

theorem one_highlighted_feature_witness:
  "reachable (highlightFeature 0 sel0)
   \<and> currentFeature (highlightFeature 0 sel0) = Some 0
   \<and> currentFeature (highlightFeature 1 (highlightFeature 0 sel0)) = Some 1
   \<and> highlighted (paths (highlightFeature 1 (highlightFeature 0 sel0)) ! 1)
   \<and> \<not> highlighted (paths (highlightFeature 1 (highlightFeature 0 sel0)) ! 0)
   \<and> options (paths (highlightFeature 1 (highlightFeature 0 sel0)) ! 0) = getFeatureStyle f_cfr
   \<and> currentFeature (resetView (highlightFeature 0 sel0)) = None
   \<and> \<not> highlighted (paths (resetView (highlightFeature 0 sel0)) ! 0)"
proof -
  have l0: "length (paths sel0) = 2" by (simp add: sel0_def)
  have r: "reachable (highlightFeature 0 sel0)"
    by (rule reachable.click[OF reachable_sel0]) (simp add: l0)
  have c: "currentFeature (highlightFeature 0 sel0) = Some 0"
    by (simp add: highlightFeature_def)
  have l: "length (paths (highlightFeature 0 sel0)) = 2"
    by (simp add: highlightFeature_def sel0_def length_setStyle)
  have f: "feature (paths (highlightFeature 0 sel0) ! 0) = f_cfr"
    by (simp add: highlightFeature_def sel0_def nth_setStyle newPath_def)
  have lr: "length (paths (resetView (highlightFeature 0 sel0))) = 2"
    by (simp add: resetView_def c l length_restore)
  show ?thesis
    using one_highlighted_feature [OF r] r c l f lr
    by (auto simp: numeral_2_eq_2)
qed

end
